theory Spec2Isabelle
  imports Main
begin

section \<open>JavaScript strings and values\<close>

text \<open>
  A JavaScript string is modelled by \<open>string\<close>, the list of the bytes of its UTF-8
  encoding: an ASCII character is one byte, every other character is two to four bytes of
  value 128 or more. \<open>toLowerCase\<close> maps the ASCII letters A-Z to a-z and leaves every
  other byte alone; every role name the client compares against is ASCII and contains no
  letter that a non-ASCII character lowers to.
\<close>

definition upper_lower_table :: "(char \<times> char) list" where
  "upper_lower_table = zip ''ABCDEFGHIJKLMNOPQRSTUVWXYZ'' ''abcdefghijklmnopqrstuvwxyz''"

definition lower_char :: "char \<Rightarrow> char" where
  "lower_char c = (case map_of upper_lower_table c of Some d \<Rightarrow> d | None \<Rightarrow> c)"

definition toLowerCase :: "string \<Rightarrow> string" where
  "toLowerCase s = map lower_char s"

primrec starts_with :: "string \<Rightarrow> string \<Rightarrow> bool" where
  "starts_with s [] = True"
| "starts_with s (p # ps) = (case s of [] \<Rightarrow> False | c # cs \<Rightarrow> c = p \<and> starts_with cs ps)"

text \<open>
  The white space and line terminators of the language, each as the bytes of its
  encoding: tab, line feed, vertical tab, form feed, carriage return, space, U+00A0,
  U+1680, U+2000 to U+200A, U+2028, U+2029, U+202F, U+205F, U+3000 and U+FEFF. These are
  what \<open>trim\<close> strips and \<open>parseInt\<close> skips.
\<close>

definition white_space :: "string list" where
  "white_space =
     [[CHR 0x09], [CHR 0x0A], [CHR 0x0B], [CHR 0x0C], [CHR 0x0D], [CHR 0x20],
      [CHR 0xC2, CHR 0xA0], [CHR 0xE1, CHR 0x9A, CHR 0x80],
      [CHR 0xE2, CHR 0x80, CHR 0x80], [CHR 0xE2, CHR 0x80, CHR 0x81], [CHR 0xE2, CHR 0x80, CHR 0x82],
      [CHR 0xE2, CHR 0x80, CHR 0x83], [CHR 0xE2, CHR 0x80, CHR 0x84], [CHR 0xE2, CHR 0x80, CHR 0x85],
      [CHR 0xE2, CHR 0x80, CHR 0x86], [CHR 0xE2, CHR 0x80, CHR 0x87], [CHR 0xE2, CHR 0x80, CHR 0x88],
      [CHR 0xE2, CHR 0x80, CHR 0x89], [CHR 0xE2, CHR 0x80, CHR 0x8A],
      [CHR 0xE2, CHR 0x80, CHR 0xA8], [CHR 0xE2, CHR 0x80, CHR 0xA9], [CHR 0xE2, CHR 0x80, CHR 0xAF],
      [CHR 0xE2, CHR 0x81, CHR 0x9F], [CHR 0xE3, CHR 0x80, CHR 0x80], [CHR 0xEF, CHR 0xBB, CHR 0xBF]]"

text \<open>The number of bytes of the code, among those given, that the string starts with;
  0 when it starts with none.\<close>

definition leading_code :: "string list \<Rightarrow> string \<Rightarrow> nat" where
  "leading_code codes s = (case find (starts_with s) codes of None \<Rightarrow> 0 | Some w \<Rightarrow> length w)"

text \<open>Dropping the codes the string starts with, one after the other; \<open>k\<close> counts the
  bytes still to drop of the code being dropped.\<close>

primrec strip_from :: "string list \<Rightarrow> nat \<Rightarrow> string \<Rightarrow> string" where
  "strip_from codes k [] = []"
| "strip_from codes k (c # cs) =
     (if 0 < k then strip_from codes (k - 1) cs
      else (let n = leading_code codes (c # cs)
            in if n = 0 then c # cs else strip_from codes (n - 1) cs))"

definition skip_space :: "string \<Rightarrow> string" where
  "skip_space s = strip_from white_space 0 s"

definition trim :: "string \<Rightarrow> string" where
  "trim s = rev (strip_from (map rev white_space) 0 (rev (skip_space s)))"

text \<open>\<open>s.includes(sub)\<close>, which is also \<open>s.indexOf(sub) !== -1\<close>.\<close>

fun js_includes :: "string \<Rightarrow> string \<Rightarrow> bool" where
  "js_includes [] sub = (sub = [])"
| "js_includes (c # cs) sub = (starts_with (c # cs) sub \<or> js_includes cs sub)"

text \<open>\<open>x || d\<close> on a string that may be null: null and the empty string are falsy.\<close>

definition or_else :: "string option \<Rightarrow> string \<Rightarrow> string" where
  "or_else x d = (case x of None \<Rightarrow> d | Some s \<Rightarrow> if s = [] then d else s)"

definition is_digit :: "char \<Rightarrow> bool" where
  "is_digit c = (c \<in> set ''0123456789'')"

definition digit_val :: "char \<Rightarrow> nat" where
  "digit_val c = (case map_of (zip ''0123456789'' [0, 1, 2, 3, 4, 5, 6, 7, 8, 9]) c of
                    Some n \<Rightarrow> n | None \<Rightarrow> 0)"

definition digits_val :: "string \<Rightarrow> nat" where
  "digits_val ds = foldl (\<lambda>a c. 10 * a + digit_val c) 0 ds"

text \<open>
  \<open>parseInt(s, 10)\<close>: leading white space is skipped, one sign is read, then the longest
  run of decimal digits; \<open>None\<close> is NaN (no digit). Whatever follows the digits is
  ignored. The value is exact (JavaScript rounds above \<open>2^53\<close>).
\<close>

definition parseInt :: "string \<Rightarrow> int option" where
  "parseInt s =
     (let s1 = skip_space s;
          neg = (case s1 of [] \<Rightarrow> False | c # _ \<Rightarrow> c = CHR ''-'');
          s2 = (case s1 of [] \<Rightarrow> [] | c # r \<Rightarrow> if c = CHR ''-'' \<or> c = CHR ''+'' then r else s1);
          ds = takeWhile is_digit s2
      in if ds = [] then None
         else Some (if neg then - int (digits_val ds) else int (digits_val ds)))"

fun digits_of :: "nat \<Rightarrow> string" where
  "digits_of n = (if n < 10 then [''0123456789'' ! n]
                  else digits_of (n div 10) @ [''0123456789'' ! (n mod 10)])"

text \<open>String conversion of an integer number, as in \<open>"/tasks/" + taskId\<close>.\<close>

definition num_string :: "int \<Rightarrow> string" where
  "num_string n = (if n < 0 then CHR ''-'' # digits_of (nat (- n)) else digits_of (nat n))"

text \<open>
  Parsed JSON. Numbers are integers (only being zero matters to the client); an object
  is its property list.
\<close>

datatype json =
    JNull
  | JBool bool
  | JNum int
  | JStr string
  | JArr "json list"
  | JObj "(string \<times> json) list"

text \<open>Truthiness of a value that may be \<open>undefined\<close> (\<open>None\<close>).\<close>

fun truthy :: "json option \<Rightarrow> bool" where
  "truthy None = False"
| "truthy (Some JNull) = False"
| "truthy (Some (JBool b)) = b"
| "truthy (Some (JNum n)) = (n \<noteq> 0)"
| "truthy (Some (JStr s)) = (s \<noteq> [])"
| "truthy (Some (JArr xs)) = True"
| "truthy (Some (JObj kvs)) = True"

datatype thrown =
    Error json          \<comment> \<open>\<open>new Error(v)\<close>: the message is the string conversion of \<open>v\<close>\<close>
  | ErrorStringify json \<comment> \<open>\<open>new Error(JSON.stringify(v))\<close>\<close>
  | SyntaxError         \<comment> \<open>\<open>response.json()\<close> rejected\<close>
  | TypeError           \<comment> \<open>property read on null, or a method missing on the value\<close>
  | FetchFailed         \<comment> \<open>\<open>fetch\<close> rejected: no response\<close>

text \<open>\<open>v.key\<close>: reading a property of null throws, and a primitive or array has none of
  the properties read here.\<close>

fun get_prop :: "json \<Rightarrow> string \<Rightarrow> thrown + json option" where
  "get_prop JNull k = Inl TypeError"
| "get_prop (JObj kvs) k = Inr (map_of kvs k)"
| "get_prop v k = Inr None"

text \<open>String conversion, as \<open>localStorage.setItem\<close> applies it to the value stored; an
  array is its elements joined by commas, with null as the empty string.\<close>

fun js_String :: "json \<Rightarrow> string" and js_join :: "json list \<Rightarrow> string" where
  "js_String JNull = ''null''"
| "js_String (JBool b) = (if b then ''true'' else ''false'')"
| "js_String (JNum n) = num_string n"
| "js_String (JStr s) = s"
| "js_String (JArr xs) = js_join xs"
| "js_String (JObj kvs) = ''[object Object]''"
| "js_join [] = []"
| "js_join (x # xs) =
     (if x = JNull then [] else js_String x) @ (if xs = [] then [] else '','' @ js_join xs)"

section \<open>The browser state the client reads and writes\<close>

record browser =
  localStorage :: "string \<rightharpoonup> string"
  hostname :: string
  protocol :: string
  pathname :: string
  location_href :: string
  effectiveDisplayRole :: "string option"
  chatPanelOpen :: bool
  proof_modal_hidden :: bool      \<comment> \<open>the completion-proof modal\<close>
  proof_task_id :: string         \<comment> \<open>its hidden task-id input\<close>
  proof_file :: "string option"   \<comment> \<open>the file selected in it, if any\<close>

definition removeItem :: "string \<Rightarrow> browser \<Rightarrow> browser" where
  "removeItem k st = st\<lparr>localStorage := (localStorage st)(k := None)\<rparr>"

definition setItem :: "string \<Rightarrow> string \<Rightarrow> browser \<Rightarrow> browser" where
  "setItem k v st = st\<lparr>localStorage := (localStorage st)(k \<mapsto> v)\<rparr>"

section \<open>api.js\<close>

definition BASE_URL :: "browser \<Rightarrow> string" where
  "BASE_URL st =
     (if hostname st = ''localhost'' \<or> hostname st = ''127.0.0.1'' then ''http://127.0.0.1:8000''
      else protocol st @ ''//'' @ hostname st @ '':8000'')"

definition getSessionToken :: "browser \<Rightarrow> string option" where
  "getSessionToken st = localStorage st ''session_token''"

definition getUserId :: "browser \<Rightarrow> string option" where
  "getUserId st = localStorage st ''user_id''"


datatype payload =
    JsonText json                     \<comment> \<open>\<open>JSON.stringify(data)\<close>\<close>
  | FormData "(string \<times> string) list"  \<comment> \<open>form fields; a file is named by its file name\<close>

record request =
  req_url :: string
  req_method :: string
  req_headers :: "(string \<times> string) list"
  req_body :: "payload option"

record response =
  resp_status :: nat
  resp_statusText :: string
  resp_contentType :: "string option"  \<comment> \<open>\<open>response.headers.get("content-type")\<close>\<close>
  resp_body :: "json option"           \<comment> \<open>what \<open>response.json()\<close> resolves to; \<open>None\<close>: it rejects\<close>

definition ok :: "response \<Rightarrow> bool" where
  "ok r = (200 \<le> resp_status r \<and> resp_status r \<le> 299)"

record api_result =
  outcome :: "thrown + json"  \<comment> \<open>\<open>Inl\<close>: the promise rejects; \<open>Inr\<close>: the value returned\<close>
  after :: browser
  fetched :: "request list"   \<comment> \<open>every request handed to \<open>fetch\<close>, in order\<close>

definition apiRequest_options :: "browser \<Rightarrow> string \<Rightarrow> string \<Rightarrow> json option \<Rightarrow> bool \<Rightarrow> request" where
  "apiRequest_options st endpoint method data useAuth =
     \<lparr>req_url = BASE_URL st @ endpoint,
      req_method = method,
      req_headers = (''Content-Type'', ''application/json'') #
        (if useAuth
         then (case getSessionToken st of
                 None \<Rightarrow> []
               | Some token \<Rightarrow> if token \<noteq> [] then [(''X-Session-Token'', token)] else [])
         else []),
      req_body = (if truthy data \<and> (method = ''POST'' \<or> method = ''PUT'')
                  then map_option JsonText data else None)\<rparr>"

definition apiRequestFormData_options ::
    "browser \<Rightarrow> string \<Rightarrow> string \<Rightarrow> (string \<times> string) list \<Rightarrow> request" where
  "apiRequestFormData_options st endpoint method formData =
     \<lparr>req_url = BASE_URL st @ endpoint,
      req_method = method,
      req_headers = (case getSessionToken st of
                       None \<Rightarrow> []
                     | Some token \<Rightarrow> if token \<noteq> [] then [(''X-Session-Token'', token)] else []),
      req_body = Some (FormData formData)\<rparr>"

text \<open>The body as the client reads it: parsed when the content type says JSON, a
  substitute object otherwise.\<close>

definition read_result :: "response \<Rightarrow> thrown + json" where
  "read_result r =
     (if (case resp_contentType r of None \<Rightarrow> False
          | Some ct \<Rightarrow> ct \<noteq> [] \<and> js_includes ct ''application/json'')
      then (case resp_body r of None \<Rightarrow> Inl SyntaxError | Some j \<Rightarrow> Inr j)
      else Inr (JObj [(''detail'',
                  JStr (if resp_statusText r \<noteq> [] then resp_statusText r else ''Request failed''))]))"

definition clear_session :: "browser \<Rightarrow> browser" where
  "clear_session st =
     (let st1 = removeItem ''role'' (removeItem ''username''
                  (removeItem ''user_id'' (removeItem ''session_token'' st)))
      in if js_includes (pathname st1) ''dashboard''
         then st1\<lparr>location_href := ''index.html''\<rparr> else st1)"

text \<open>What both \<open>apiRequest\<close> and \<open>apiRequestFormData\<close> do with the response of their
  one \<open>fetch\<close>; the two functions repeat the same statements.\<close>

definition handle_response :: "browser \<Rightarrow> response \<Rightarrow> (thrown + json) \<times> browser" where
  "handle_response st r =
     (case read_result r of
        Inl e \<Rightarrow> (Inl e, st)
      | Inr result \<Rightarrow>
          if resp_status r = 401 then
            (let st' = clear_session st
             in case get_prop result ''detail'' of
                  Inl e \<Rightarrow> (Inl e, st')
                | Inr d \<Rightarrow> (Inl (Error (case d of
                                          Some v \<Rightarrow> if truthy d then v else JStr ''Session expired''
                                        | None \<Rightarrow> JStr ''Session expired'')), st'))
          else if \<not> ok r then
            (case get_prop result ''detail'' of
               Inl e \<Rightarrow> (Inl e, st)
             | Inr d \<Rightarrow>
                 (Inl (case d of
                         Some v \<Rightarrow> if truthy d then Error v
                                   else (case v of JStr s \<Rightarrow> Error v | _ \<Rightarrow> ErrorStringify result)
                       | None \<Rightarrow> ErrorStringify result), st))
          else (Inr result, st))"

definition apiRequest ::
    "browser \<Rightarrow> (request \<Rightarrow> response option) \<Rightarrow> string \<Rightarrow> string \<Rightarrow> json option \<Rightarrow> bool \<Rightarrow> api_result" where
  "apiRequest st fetch endpoint method data useAuth =
     (let options = apiRequest_options st endpoint method data useAuth
      in case fetch options of
           None \<Rightarrow> \<lparr>outcome = Inl FetchFailed, after = st, fetched = [options]\<rparr>
         | Some r \<Rightarrow> (let (res, st') = handle_response st r
                      in \<lparr>outcome = res, after = st', fetched = [options]\<rparr>))"

definition apiRequestFormData ::
    "browser \<Rightarrow> (request \<Rightarrow> response option) \<Rightarrow> string \<Rightarrow> string \<Rightarrow> (string \<times> string) list \<Rightarrow> api_result" where
  "apiRequestFormData st fetch endpoint method formData =
     (let options = apiRequestFormData_options st endpoint method formData
      in case fetch options of
           None \<Rightarrow> \<lparr>outcome = Inl FetchFailed, after = st, fetched = [options]\<rparr>
         | Some r \<Rightarrow> (let (res, st') = handle_response st r
                      in \<lparr>outcome = res, after = st', fetched = [options]\<rparr>))"

section \<open>auth.js\<close>

text \<open>The arguments of one \<open>apiRequest(endpoint, method, data, useAuth)\<close> call.\<close>

record api_call =
  call_endpoint :: string
  call_method :: string
  call_data :: "json option"
  call_useAuth :: bool

definition run_call :: "browser \<Rightarrow> (request \<Rightarrow> response option) \<Rightarrow> api_call \<Rightarrow> api_result" where
  "run_call st fetch c = apiRequest st fetch (call_endpoint c) (call_method c) (call_data c) (call_useAuth c)"


text \<open>
  The \<open>then\<close> handler of \<open>login\<close> on the value \<open>res\<close> the call returned. \<open>Inl\<close> is an
  exception on the way (it reaches the \<open>catch\<close> handler), with the state as far as it was
  written; \<open>Inr\<close> is the state at the end.
\<close>

definition login_then :: "browser \<Rightarrow> string \<Rightarrow> json \<Rightarrow> (thrown \<times> browser) + browser" where
  "login_then st username res =
     (case get_prop res ''session_token'' of
        Inl e \<Rightarrow> Inl (e, st)
      | Inr tok \<Rightarrow>
          if truthy tok then
            (let st1 = setItem ''session_token'' (case tok of Some v \<Rightarrow> js_String v | None \<Rightarrow> []) st;
                 st2 = setItem ''user_id''
                         (case map_of (case res of JObj kvs \<Rightarrow> kvs | _ \<Rightarrow> []) ''user_id'' of
                            Some v \<Rightarrow> js_String v | None \<Rightarrow> ''undefined'') st1;
                 un = map_of (case res of JObj kvs \<Rightarrow> kvs | _ \<Rightarrow> []) ''username'';
                 st3 = setItem ''username''
                         (case un of Some v \<Rightarrow> if truthy un then js_String v else username
                                   | None \<Rightarrow> username) st2;
                 ro = map_of (case res of JObj kvs \<Rightarrow> kvs | _ \<Rightarrow> []) ''role''
             in if truthy ro
                then (case ro of
                        Some (JStr s) \<Rightarrow>
                          Inr ((setItem ''role'' (toLowerCase s) st3)\<lparr>location_href := ''dashboard.html''\<rparr>)
                      | _ \<Rightarrow> Inl (TypeError, st3))
                else Inr ((setItem ''role'' (toLowerCase ''member'') st3)
                            \<lparr>location_href := ''dashboard.html''\<rparr>))
          else Inr st)"




section \<open>dashboard.js: roles and permissions\<close>

definition getEffectiveRole :: "browser \<Rightarrow> string" where
  "getEffectiveRole st =
     (case effectiveDisplayRole st of
        Some r \<Rightarrow> toLowerCase r
      | None \<Rightarrow> toLowerCase (or_else (localStorage st ''role'') ''member''))"

definition isUserAdmin :: "browser \<Rightarrow> bool" where
  "isUserAdmin st =
     (let role = toLowerCase (or_else (localStorage st ''role'') ''member'')
      in role = ''admin'' \<or> role = ''division head'')"

definition canAssignTask :: "browser \<Rightarrow> bool" where
  "canAssignTask st =
     (let role = toLowerCase (or_else (localStorage st ''role'') ''member'')
      in role = ''admin'' \<or> role = ''division head'')"

definition canUseMultiAssign :: "browser \<Rightarrow> bool" where
  "canUseMultiAssign st =
     (let role = getEffectiveRole st
      in role \<in> set [''admin'', ''division head'', ''group head'', ''team lead'', ''project director''])"

text \<open>
  What \<open>setupRoleBasedUI\<close> leaves in the page, every element it looks up being present:
  the \<open>style.display\<close> of each section (the empty string shows it, \<open>none\<close> hides it),
  the \<open>hidden\<close> flag of the closure-control group, and whether \<open>loadAllUsers\<close> was
  called.
\<close>

record role_ui =
  team_section_display :: string
  member_section_display :: string
  delete_team_card_display :: string
  remove_member_card_display :: string
  task_closure_group_hidden :: bool
  users_section_display :: string
  loadAllUsers_called :: bool
  multi_wrap_display :: string
  single_wrap_display :: string
  lead_wrap_display :: string
  share_wrap_display :: string
  type_hint_display :: string

definition setupRoleBasedUI :: "browser \<Rightarrow> string \<Rightarrow> role_ui" where
  "setupRoleBasedUI st userRole =
     (let role = toLowerCase (or_else (Some userRole) ''member'');
          isAdmin = (role = ''admin'' \<or> role = ''division head'');
          canCreateTeam = (isAdmin \<or> role = ''team lead'' \<or> role = ''project director''
                             \<or> role = ''group head'');
          canRemoveMember = (isAdmin \<or> role = ''project director'' \<or> role = ''group head''
                               \<or> role = ''team lead'')
      in \<lparr>team_section_display = (if canCreateTeam then '''' else ''none''),
          member_section_display = ''none'',
          delete_team_card_display = (if isAdmin then '''' else ''none''),
          remove_member_card_display = (if canRemoveMember then '''' else ''none''),
          task_closure_group_hidden =
            (if role = ''team lead'' \<or> role = ''group head'' \<or> role = ''project director''
                  \<or> role = ''division head'' \<or> role = ''admin''
             then False else True),
          users_section_display = (if isAdmin then ''block'' else ''none''),
          loadAllUsers_called = isAdmin,
          multi_wrap_display = (if canUseMultiAssign st then ''block'' else ''none''),
          single_wrap_display =
            (if canUseMultiAssign st then ''none'' else if canAssignTask st then '''' else ''none''),
          lead_wrap_display =
            (if canUseMultiAssign st then ''none'' else if canAssignTask st then '''' else ''none''),
          share_wrap_display =
            (if canUseMultiAssign st then ''none'' else if canAssignTask st then '''' else ''none''),
          type_hint_display =
            (if \<not> canAssignTask st \<and> \<not> canUseMultiAssign st then ''block'' else ''none'')\<rparr>)"

record team =
  team_id :: int
  team_name :: string
  user_role :: "string option"

text \<open>The loop of \<open>loadUserTeams\<close> over the user's teams: the first team role that is a
  privileged one, if any.\<close>

fun first_privileged_role :: "team list \<Rightarrow> string option" where
  "first_privileged_role [] = None"
| "first_privileged_role (t # ts) =
     (let r = trim (toLowerCase (or_else (user_role t) ''''))
      in if r \<in> set [''project director'', ''group head'', ''team lead''] then Some r
         else first_privileged_role ts)"

text \<open>The role part of the \<open>then\<close> handler of \<open>loadUserTeams\<close>, on the teams the server
  returned: it sets \<open>effectiveDisplayRole\<close> and redoes the role-based sections.\<close>

definition loadUserTeams_then :: "browser \<Rightarrow> team list \<Rightarrow> browser \<times> role_ui" where
  "loadUserTeams_then st teams =
     (let globalRole = toLowerCase (or_else (localStorage st ''role'') ''member'');
          eff = (if globalRole = ''admin'' \<or> globalRole = ''division head'' then globalRole
                 else (case first_privileged_role teams of Some r \<Rightarrow> r | None \<Rightarrow> globalRole));
          st' = st\<lparr>effectiveDisplayRole := Some eff\<rparr>
      in (st', setupRoleBasedUI st' eff))"

text \<open>
  The \<open>then\<close> handler of the \<open>/users/me\<close> call made when the dashboard loads. The result
  holds the new state and, when the role changed, the sections as redone (the handler then
  calls \<open>loadUserTeams\<close> and \<open>loadTasks\<close>). An exception is swallowed by the \<open>catch\<close>.
\<close>

definition sync_then :: "browser \<Rightarrow> json \<Rightarrow> (thrown \<times> browser) + (browser \<times> role_ui option)" where
  "sync_then st me =
     (if \<not> truthy (Some me) then Inr (st, None)
      else (let ro = map_of (case me of JObj kvs \<Rightarrow> kvs | _ \<Rightarrow> []) ''role'';
                un = map_of (case me of JObj kvs \<Rightarrow> kvs | _ \<Rightarrow> []) ''username''
            in case (if truthy ro
                     then (case ro of Some (JStr s) \<Rightarrow> Inr (toLowerCase s) | _ \<Rightarrow> Inl TypeError)
                     else Inr (toLowerCase ''member'')) of
                 Inl e \<Rightarrow> Inl (e, st)
               | Inr serverRole \<Rightarrow>
                   (let st1 = (case un of
                                 Some v \<Rightarrow> if truthy un then setItem ''username'' (js_String v) st else st
                               | None \<Rightarrow> st);
                        roleChanged =
                          (serverRole \<noteq> toLowerCase (or_else (localStorage st1 ''role'') ''member''))
                    in if roleChanged
                       then (let st2 = setItem ''role'' serverRole st1
                             in Inr (st2, Some (setupRoleBasedUI st2 serverRole)))
                       else Inr (st1, None))))"

text \<open>Changing a user's role from the user table: the two quick buttons, the
  confirmation, the call, and its \<open>then\<close> handler.\<close>

definition updateUserRole :: "int \<Rightarrow> string \<Rightarrow> api_call" where
  "updateUserRole userId newRole =
     (let roleLabel = (if newRole = ''division head'' then ''Division Head''
                       else if newRole = ''admin'' then ''Admin'' else ''Member'')
      in \<lparr>call_endpoint = ''/users/'' @ num_string userId @ ''/role'', call_method = ''PUT'',
          call_data = Some (JObj [(''role'', JStr roleLabel)]), call_useAuth = True\<rparr>)"

definition updateUserRole_then :: "browser \<Rightarrow> int \<Rightarrow> string \<Rightarrow> browser \<times> role_ui option" where
  "updateUserRole_then st userId newRole =
     (let currentUserId = parseInt (case localStorage st ''user_id'' of None \<Rightarrow> ''null'' | Some v \<Rightarrow> v)
      in if Some userId = currentUserId
         then (let st' = setItem ''role'' newRole st in (st', Some (setupRoleBasedUI st' newRole)))
         else (st, None))"

definition setUserRoleConfirm :: "bool \<Rightarrow> int \<Rightarrow> string \<Rightarrow> (string \<times> api_call) option" where
  "setUserRoleConfirm confirmed userId newRole =
     (if \<not> confirmed then None else Some (newRole, updateUserRole userId newRole))"

definition btnDivHead_onclick :: "bool \<Rightarrow> int \<Rightarrow> (string \<times> api_call) option" where
  "btnDivHead_onclick confirmed u_id = setUserRoleConfirm confirmed u_id ''division head''"

definition btnMember_onclick :: "bool \<Rightarrow> int \<Rightarrow> (string \<times> api_call) option" where
  "btnMember_onclick confirmed u_id = setUserRoleConfirm confirmed u_id ''member''"

section \<open>dashboard.js: what the handlers do\<close>

text \<open>
  A handler is modelled by the state it leaves and the list of what it starts, in order:
  calls of \<open>apiRequest\<close> and \<open>apiRequestFormData\<close>, toasts, and reloads. The \<open>then\<close>
  and \<open>catch\<close> handlers of a call are definitions of their own, and \<open>settle\<close> picks
  the one that runs from the outcome of the call. Every element a handler looks up by its
  id is taken to be in the page, as it is in the dashboard.
\<close>

datatype action =
    Call api_call
  | CallFormData string string "(string \<times> string) list"
  | ShowToast string bool
  | ShowErrorToast thrown string  \<comment> \<open>\<open>showToast(err.message || fallback, true)\<close>\<close>
  | LoadTasks
  | LoadUserTeams
  | LoadActivityLogs
  | LoadActivityChat

definition settle :: "thrown + json \<Rightarrow> action list \<Rightarrow> (thrown \<Rightarrow> action list) \<Rightarrow> action list" where
  "settle out on_then on_catch = (case out of Inr v \<Rightarrow> on_then | Inl e \<Rightarrow> on_catch e)"

definition reload_after :: "browser \<Rightarrow> action list" where
  "reload_after st = [LoadTasks, LoadActivityLogs] @ (if chatPanelOpen st then [LoadActivityChat] else [])"

subsection \<open>Completion proof\<close>

definition openCompletionProofModal :: "browser \<Rightarrow> int \<Rightarrow> browser" where
  "openCompletionProofModal st taskId =
     st\<lparr>proof_task_id := num_string taskId, proof_file := None, proof_modal_hidden := False\<rparr>"

definition closeCompletionProofModal :: "browser \<Rightarrow> browser" where
  "closeCompletionProofModal st = st\<lparr>proof_modal_hidden := True\<rparr>"

definition updateStatus :: "browser \<Rightarrow> int \<Rightarrow> string \<Rightarrow> browser \<times> action list" where
  "updateStatus st taskId status =
     (if status = ''Completed'' \<and> \<not> isUserAdmin st then (openCompletionProofModal st taskId, [])
      else (st, [Call \<lparr>call_endpoint = ''/tasks/'' @ num_string taskId @ ''/status'', call_method = ''PUT'',
                       call_data = Some (JObj [(''status'', JStr status)]), call_useAuth = True\<rparr>]))"

definition updateStatus_then :: "browser \<Rightarrow> action list" where
  "updateStatus_then st = ShowToast ''Status updated'' False # reload_after st"

definition updateStatus_catch :: "thrown \<Rightarrow> action list" where
  "updateStatus_catch err = [ShowErrorToast err ''Failed to update status'', LoadTasks]"


definition submitCompletionProof_then :: "browser \<Rightarrow> browser \<times> action list" where
  "submitCompletionProof_then st =
     (closeCompletionProofModal st,
      ShowToast ''Completion proof submitted. Awaiting approval.'' False # reload_after st)"

definition submitCompletionProof_catch :: "thrown \<Rightarrow> action list" where
  "submitCompletionProof_catch err = [ShowErrorToast err ''Failed to submit'']"


subsection \<open>The row of a task\<close>

record task =
  t_id :: int
  t_activity_id :: "int option"
  t_status :: "string option"
  t_due_date :: "string option"
  t_assigned_to :: "int option"
  t_assigned_username :: "string option"
  t_can_approve_completion :: bool  \<comment> \<open>\<open>t.can_approve_completion === true\<close>\<close>
  t_task_type :: "string option"
  t_procurement_stage :: "string option"
  t_extension_status :: "string option"
  t_extension_reason :: "string option"
  t_extension_requested_due_date :: "string option"
  t_extension_request_id :: "int option"
  t_completion_status :: "string option"
  t_completion_request_id :: "int option"

text \<open>\<open>x || null\<close> on a string and on a number: the empty string and zero are falsy.\<close>

definition or_null :: "string option \<Rightarrow> string option" where
  "or_null x = (case x of None \<Rightarrow> None | Some s \<Rightarrow> if s = [] then None else Some s)"

definition or_null_num :: "int option \<Rightarrow> int option" where
  "or_null_num x = (case x of None \<Rightarrow> None | Some n \<Rightarrow> if n = 0 then None else Some n)"

record select_option =
  opt_value :: string
  opt_label :: string
  opt_selected :: bool
  opt_disabled :: bool

definition statusDisabled :: "task \<Rightarrow> string" where
  "statusDisabled t = (if t_status t = Some ''Pending Completion'' then '' disabled'' else '''')"

definition statusOpts :: "browser \<Rightarrow> task \<Rightarrow> select_option list" where
  "statusOpts st t =
     map (\<lambda>s. let val = (if s = ''Pending'' then ''Pending Completion'' else s)
              in \<lparr>opt_value = val, opt_label = s, opt_selected = (t_status t = Some val),
                  opt_disabled = False\<rparr>)
         [''To Do'', ''In Progress'', ''Pending'', ''Completed'']
     @ (if isUserAdmin st \<or> t_can_approve_completion t
        then [\<lparr>opt_value = '''', opt_label = [CHR 0xE2, CHR 0x80, CHR 0x94], opt_selected = False,
                opt_disabled = True\<rparr>,
              \<lparr>opt_value = ''__change_due_date__'', opt_label = ''Change due date'',
                opt_selected = False, opt_disabled = False\<rparr>]
             @ (if canAssignTask st
                   \<and> (or_null_num (t_assigned_to t) \<noteq> None \<or> or_null (t_assigned_username t) \<noteq> None)
                then [\<lparr>opt_value = ''__unassign_task__'', opt_label = ''Unassign task'',
                        opt_selected = False, opt_disabled = False\<rparr>]
                else [])
             @ [\<lparr>opt_value = ''__delete_task__'', opt_label = ''Delete task'',
                  opt_selected = False, opt_disabled = False\<rparr>,
                \<lparr>opt_value = ''__delete_activity__'', opt_label = ''Delete activity'',
                  opt_selected = False, opt_disabled = False\<rparr>]
        else [])"

text \<open>The status control of a row: the \<open>select\<close> element \<open>buildActionsCellHtml\<close> writes,
  with the arguments its \<open>onchange\<close> passes to \<open>handleActionSelect\<close>.\<close>

record status_select =
  sel_disabled :: bool
  sel_due_date :: string
  sel_taskId :: int
  sel_activityId :: "int option"
  sel_currentStatus :: string
  sel_title :: string
  sel_options :: "select_option list"

definition procurement_stages :: "string list" where
  "procurement_stages =
     [''Specification Preparation'', ''Cost Estimation'', ''Demand Initiation'', ''Tendering'',
      ''TCEC'', ''CNC'', ''Purchase Order'', ''Delivery'', ''Acceptance / IDIV Issue'']"

definition buildActionsCellHtml ::
    "task \<Rightarrow> select_option list \<Rightarrow> string \<Rightarrow> string option \<Rightarrow> status_select \<times> select_option list option" where
  "buildActionsCellHtml t opts disabled_attr dueRaw =
     (let baseSelect =
            \<lparr>sel_disabled = (disabled_attr \<noteq> []),
             sel_due_date = or_else dueRaw '''',
             sel_taskId = t_id t,
             sel_activityId = t_activity_id t,
             sel_currentStatus = or_else (t_status t) '''',
             sel_title = (if disabled_attr \<noteq> [] then ''Awaiting approval'' else ''''),
             sel_options = opts\<rparr>;
          taskType = or_else (t_task_type t) ''Normal''
      in if taskType \<noteq> ''Procurement'' then (baseSelect, None)
         else (baseSelect,
               Some (\<lparr>opt_value = '''', opt_label = ''Select stage'', opt_selected = False,
                       opt_disabled = False\<rparr>
                     # map (\<lambda>s. \<lparr>opt_value = s, opt_label = s,
                                   opt_selected = (s = or_else (t_procurement_stage t) ''''),
                                   opt_disabled = False\<rparr>) procurement_stages)))"

definition actions_cell :: "browser \<Rightarrow> task \<Rightarrow> status_select" where
  "actions_cell st t =
     fst (buildActionsCellHtml t (statusOpts st t) (statusDisabled t) (or_null (t_due_date t)))"

text \<open>A value of the control can be chosen when the control is enabled and holds an
  enabled option of that value.\<close>

definition offered :: "status_select \<Rightarrow> string \<Rightarrow> bool" where
  "offered sel v = (\<not> sel_disabled sel \<and> (\<exists>opt \<in> set (sel_options sel). opt_value opt = v \<and> \<not> opt_disabled opt))"


subsection \<open>Choosing a value in the status control\<close>

text \<open>
  \<open>handleActionSelect\<close> on the value chosen, with the answers the user gives to the
  \<open>prompt\<close> (\<open>None\<close>: cancelled) and the \<open>confirm\<close> dialog of the branch taken. Putting
  the control back to the current status is not part of the model.
\<close>

definition handleActionSelect ::
    "browser \<Rightarrow> int \<Rightarrow> int option \<Rightarrow> string \<Rightarrow> string \<Rightarrow> string option \<Rightarrow> bool \<Rightarrow> browser \<times> action list" where
  "handleActionSelect st taskId activityId currentStatus val prompt_input confirmed =
     (if val = ''__change_due_date__'' then
        (case prompt_input of
           None \<Rightarrow> (st, [])
         | Some input \<Rightarrow>
             (let trimmed = trim input
              in if trimmed = [] then (st, [ShowToast ''Due date cannot be empty'' True])
                 else (st, [Call \<lparr>call_endpoint = ''/tasks/'' @ num_string taskId @ ''/due-date'',
                                  call_method = ''PUT'',
                                  call_data = Some (JObj [(''due_date'', JStr trimmed)]),
                                  call_useAuth = True\<rparr>])))
      else if val = ''__unassign_task__'' then
        (if \<not> confirmed then (st, [])
         else (st, [Call \<lparr>call_endpoint = ''/tasks/'' @ num_string taskId @ ''/assign'',
                          call_method = ''PUT'',
                          call_data = Some (JObj [(''assigned_to'', JNull)]),
                          call_useAuth = True\<rparr>]))
      else if val = ''__delete_task__'' then
        (if \<not> confirmed then (st, [])
         else (st, [Call \<lparr>call_endpoint = ''/tasks/'' @ num_string taskId, call_method = ''DELETE'',
                          call_data = None, call_useAuth = True\<rparr>]))
      else if val = ''__delete_activity__'' then
        (case activityId of
           None \<Rightarrow> (st, [ShowToast ''This task has no activity'' True])
         | Some aid \<Rightarrow>
             if \<not> confirmed then (st, [])
             else (st, [Call \<lparr>call_endpoint = ''/activities/'' @ num_string aid,
                              call_method = ''DELETE'', call_data = None, call_useAuth = True\<rparr>]))
      else updateStatus st taskId val)"

text \<open>The \<open>change\<close> event of a status control: nothing can be chosen in a disabled
  control, nor a value it does not offer.\<close>

definition choose_status ::
    "browser \<Rightarrow> status_select \<Rightarrow> string \<Rightarrow> string option \<Rightarrow> bool \<Rightarrow> (browser \<times> action list) option" where
  "choose_status st sel val prompt_input confirmed =
     (if offered sel val
      then Some (handleActionSelect st (sel_taskId sel) (sel_activityId sel) (sel_currentStatus sel)
                   val prompt_input confirmed)
      else None)"

subsection \<open>Extension requests\<close>

datatype ext_click =
    OpenExtensionRequest int string
  | ReviewExtensionRequest int int

record ext_button =
  btn_label :: string
  btn_class :: string
  btn_disabled :: bool
  btn_onclick :: "ext_click option"
  btn_data_reason :: "string option"
  btn_data_date :: "string option"

definition extension_button :: "browser \<Rightarrow> task \<Rightarrow> ext_button" where
  "extension_button st t =
     (let dueRaw = or_null (t_due_date t);
          extStatus = or_null (t_extension_status t)
      in if extStatus = None \<or> extStatus = Some ''rejected'' \<or> extStatus = Some ''approved'' then
           \<lparr>btn_label = ''Request'', btn_class = ''btn btn-sm btn-ext btn-ext--primary'',
            btn_disabled = False,
            btn_onclick = Some (OpenExtensionRequest (t_id t) (or_else dueRaw '''')),
            btn_data_reason = None, btn_data_date = None\<rparr>
         else if extStatus = Some ''pending'' then
           \<lparr>btn_label = ''Pending'', btn_class = ''btn btn-sm btn-ext btn-ext--pending'',
            btn_disabled = (\<not> isUserAdmin st),
            btn_onclick = (if isUserAdmin st
                           then Some (ReviewExtensionRequest
                                        (case or_null_num (t_extension_request_id t) of
                                           None \<Rightarrow> 0 | Some n \<Rightarrow> n) (t_id t))
                           else None),
            btn_data_reason = or_null (t_extension_reason t),
            btn_data_date = or_null (t_extension_requested_due_date t)\<rparr>
         else
           \<lparr>btn_label = ''Request'', btn_class = ''btn btn-sm btn-ext btn-ext--primary'',
            btn_disabled = False, btn_onclick = None,
            btn_data_reason = None, btn_data_date = None\<rparr>)"

text \<open>The test \<open>/^\d{4}-\d{2}-\d{2}$/\<close>.\<close>

definition is_date_format :: "string \<Rightarrow> bool" where
  "is_date_format s =
     (length s = 10 \<and> s ! 4 = CHR ''-'' \<and> s ! 7 = CHR ''-''
      \<and> list_all is_digit (take 4 s) \<and> list_all is_digit (take 2 (drop 5 s))
      \<and> list_all is_digit (drop 8 s))"

definition openExtensionRequest :: "int \<Rightarrow> string \<Rightarrow> string option \<Rightarrow> string option \<Rightarrow> action list" where
  "openExtensionRequest taskId currentDue proposed_input reason_input =
     (if taskId = 0 then []
      else if or_null proposed_input = None then []
      else (let proposed = trim (or_else proposed_input '''')
            in if \<not> is_date_format proposed then [ShowToast ''Please enter date as YYYY-MM-DD'' True]
               else (case or_null reason_input of
                       None \<Rightarrow> [ShowToast ''Extension reason is required'' True]
                     | Some reason \<Rightarrow>
                         [Call \<lparr>call_endpoint = ''/tasks/'' @ num_string taskId @ ''/extension-requests'',
                                call_method = ''POST'',
                                call_data = Some (JObj [(''requested_due_date'', JStr proposed),
                                                        (''reason'', JStr reason)]),
                                call_useAuth = True\<rparr>])))"

text \<open>\<open>reviewExtensionRequest\<close> with the answer to its \<open>confirm\<close> and, on approval, to
  its \<open>prompt\<close> for the final due date.\<close>

definition reviewExtensionRequest ::
    "browser \<Rightarrow> int \<Rightarrow> int \<Rightarrow> ext_button \<Rightarrow> bool \<Rightarrow> string option \<Rightarrow> action list" where
  "reviewExtensionRequest st requestId taskId btnEl approve finalInput =
     (if requestId = 0 then []
      else if \<not> isUserAdmin st then [ShowToast ''Only admins can decide extension requests'' True]
      else (let status_field = (''status'', JStr (if approve then ''approved'' else ''rejected''));
                put = (\<lambda>payload. [Call \<lparr>call_endpoint =
                                           ''/tasks/extension-requests/'' @ num_string requestId,
                                         call_method = ''PUT'', call_data = Some (JObj payload),
                                         call_useAuth = True\<rparr>])
            in if approve then
                 (case finalInput of
                    None \<Rightarrow> put [status_field]
                  | Some f \<Rightarrow>
                      if trim f = [] then put [status_field]
                      else if \<not> is_date_format (trim f)
                      then [ShowToast ''Please enter date as YYYY-MM-DD'' True]
                      else put [status_field, (''new_due_date'', JStr (trim f))])
               else put [status_field]))"

text \<open>A click on the extension button of a row: a disabled button, or one without a
  handler, does nothing.\<close>

definition click_extension ::
    "browser \<Rightarrow> ext_button \<Rightarrow> string option \<Rightarrow> string option \<Rightarrow> bool \<Rightarrow> action list" where
  "click_extension st btn prompt1 prompt2 confirmed =
     (if btn_disabled btn then []
      else (case btn_onclick btn of
              None \<Rightarrow> []
            | Some (OpenExtensionRequest taskId currentDue) \<Rightarrow>
                openExtensionRequest taskId currentDue prompt1 prompt2
            | Some (ReviewExtensionRequest requestId taskId) \<Rightarrow>
                reviewExtensionRequest st requestId taskId btn confirmed prompt1))"

subsection \<open>Deleting a team\<close>

definition confirmDeleteTeam :: "string \<Rightarrow> bool \<Rightarrow> action list" where
  "confirmDeleteTeam sel_value confirmed =
     (if sel_value = [] then [ShowToast ''Select a team to delete'' True]
      else (let teamId = (case parseInt sel_value of None \<Rightarrow> ''NaN'' | Some n \<Rightarrow> num_string n)
            in if \<not> confirmed then []
               else [Call \<lparr>call_endpoint = ''/teams/'' @ teamId, call_method = ''DELETE'',
                            call_data = None, call_useAuth = True\<rparr>]))"

definition confirmDeleteTeam_then :: "action list" where
  "confirmDeleteTeam_then = [ShowToast ''Team deleted'' False, LoadUserTeams, LoadTasks, LoadActivityLogs]"

definition confirmDeleteTeam_catch :: "thrown \<Rightarrow> action list" where
  "confirmDeleteTeam_catch err = [ShowErrorToast err ''Failed to delete team'']"

text \<open>All of it against a server: what \<open>confirmDeleteTeam\<close> starts and, when it made the
  call, what the handler of the outcome starts.\<close>

definition confirmDeleteTeam_run ::
    "browser \<Rightarrow> (request \<Rightarrow> response option) \<Rightarrow> string \<Rightarrow> bool \<Rightarrow> action list" where
  "confirmDeleteTeam_run st fetch sel_value confirmed =
     concat (map (\<lambda>a. case a of
                        Call c \<Rightarrow> a # settle (outcome (run_call st fetch c))
                                        confirmDeleteTeam_then confirmDeleteTeam_catch
                      | _ \<Rightarrow> [a])
                 (confirmDeleteTeam sel_value confirmed))"

subsection \<open>Working days left\<close>

text \<open>
  A \<open>Date\<close> at midnight UTC is the number of its day, counted from 1 January 1970; the
  time value is that number times 86400000, and \<open>None\<close> is the invalid date (NaN).
  \<open>DayFromYear\<close> and \<open>MakeDay\<close> are the ones of the language standard: a month index
  outside 0..11 carries into the year, a day of the month outside the month carries into
  the days. \<open>Date.UTC\<close> reads a year from 0 to 99 as 1900 plus that year, and the time of
  a date lies within 100000000 days of day 0.
\<close>

definition DayFromYear :: "int \<Rightarrow> int" where
  "DayFromYear y = 365 * (y - 1970) + (y - 1969) div 4 - (y - 1901) div 100 + (y - 1601) div 400"

definition InLeapYear :: "int \<Rightarrow> bool" where
  "InLeapYear y = ((y mod 4 = 0 \<and> y mod 100 \<noteq> 0) \<or> y mod 400 = 0)"

definition days_before_month :: "int \<Rightarrow> bool \<Rightarrow> int" where
  "days_before_month mn leap =
     [0, 31, 59, 90, 120, 151, 181, 212, 243, 273, 304, 334] ! nat mn
     + (if leap \<and> 2 \<le> mn then 1 else 0)"

definition MakeDay :: "int \<Rightarrow> int \<Rightarrow> int \<Rightarrow> int" where
  "MakeDay year month date =
     (let ym = year + month div 12; mn = month mod 12
      in DayFromYear ym + days_before_month mn (InLeapYear ym) + date - 1)"

definition Date_UTC :: "int \<Rightarrow> int \<Rightarrow> int \<Rightarrow> int option" where
  "Date_UTC year month date =
     (let yr = (if 0 \<le> year \<and> year \<le> 99 then 1900 + year else year);
          day = MakeDay yr month date
      in if \<bar>day\<bar> \<le> 100000000 then Some day else None)"

text \<open>0 is Sunday, 6 is Saturday; day 0 was a Thursday.\<close>

definition getUTCDay :: "int \<Rightarrow> int" where
  "getUTCDay day = (day + 4) mod 7"

text \<open>\<open>s.split(c)\<close>: the pieces of \<open>s\<close> between the occurrences of \<open>c\<close>.\<close>

fun split_on :: "char \<Rightarrow> string \<Rightarrow> string list" where
  "split_on c [] = [[]]"
| "split_on c (x # xs) =
     (if x = c then [] # split_on c xs
      else (case split_on c xs of [] \<Rightarrow> [[x]] | p # ps \<Rightarrow> (x # p) # ps))"

text \<open>The loop of \<open>computeWorkingDaysLeft\<close>: the cursor walks from \<open>start\<close> up to
  \<open>end\<close>, a day at a time.\<close>

function working_days_loop :: "int \<Rightarrow> int \<Rightarrow> int \<Rightarrow> int" where
  "working_days_loop cursor end_day days =
     (if cursor < end_day
      then working_days_loop (cursor + 1) end_day
             (if getUTCDay cursor \<noteq> 0 \<and> getUTCDay cursor \<noteq> 6 then days + 1 else days)
      else days)"
  by pat_completeness auto
termination
  by (relation "measure (\<lambda>(cursor, end_day, days). nat (end_day - cursor))") auto

declare working_days_loop.simps [simp del]

text \<open>
  \<open>computeWorkingDaysLeft\<close>, given what the clock says today: the year, the month index
  (0 to 11) and the day of the month of the local date. \<open>None\<close> is \<open>null\<close>.
\<close>

definition computeWorkingDaysLeft :: "int \<times> int \<times> int \<Rightarrow> string option \<Rightarrow> int option" where
  "computeWorkingDaysLeft today dueDateStr =
     (case or_null dueDateStr of
        None \<Rightarrow> None
      | Some s \<Rightarrow>
          (case split_on CHR ''-'' s of
             [p0, p1, p2] \<Rightarrow>
               (case (parseInt p0, parseInt p1, parseInt p2) of
                  (Some year, Some m, Some day) \<Rightarrow>
                    (let month = m - 1
                     in case (Date_UTC (fst today) (fst (snd today)) (snd (snd today)),
                              Date_UTC year month day) of
                          (Some todayUtc, Some dueUtc) \<Rightarrow>
                            if todayUtc = dueUtc then Some 0
                            else (let forward = (dueUtc > todayUtc);
                                      start = (if forward then todayUtc else dueUtc);
                                      end_day = (if forward then dueUtc else todayUtc);
                                      days = working_days_loop start end_day 0
                                  in Some (if forward then days else - days))
                        | _ \<Rightarrow> None)
                | _ \<Rightarrow> None)
           | _ \<Rightarrow> None))"

section \<open>The backend, as far as the spec describes it\<close>

record server_team =
  srv_team_id :: int
  srv_members :: "int list"
  srv_tasks :: "int list"

text \<open>Modelled from the spec: the backend handler of \<open>DELETE /teams/{team_id}\<close> is not
  among the sources. The spec says that rows are "deleted via DELETE with cascading
  restrictions (teams with members/tasks cannot be deleted)" and that errors are "Standard
  HTTP status codes with JSON detail messages". A team is its id, its members and its
  tasks; the handler answers and gives the teams it leaves.\<close>

definition delete_team :: "server_team list \<Rightarrow> int \<Rightarrow> response \<times> server_team list" where
  "delete_team teams tid =
     (case find (\<lambda>t. srv_team_id t = tid) teams of
        None \<Rightarrow>
          (\<lparr>resp_status = 404, resp_statusText = ''Not Found'',
            resp_contentType = Some ''application/json'',
            resp_body = Some (JObj [(''detail'', JStr ''Team not found'')])\<rparr>, teams)
      | Some t \<Rightarrow>
          if srv_members t \<noteq> [] \<or> srv_tasks t \<noteq> []
          then (\<lparr>resp_status = 400, resp_statusText = ''Bad Request'',
                 resp_contentType = Some ''application/json'',
                 resp_body = Some (JObj [(''detail'', JStr ''Team with members or tasks cannot be deleted'')])\<rparr>,
                teams)
          else (\<lparr>resp_status = 200, resp_statusText = ''OK'',
                 resp_contentType = Some ''application/json'',
                 resp_body = Some (JObj [(''message'', JStr ''Team deleted'')])\<rparr>,
                filter (\<lambda>t. srv_team_id t \<noteq> tid) teams))"


section \<open>Notions the properties are stated with\<close>

text \<open>The detail message of a body: its \<open>detail\<close> property when that is truthy.\<close>

definition detail_of :: "json \<Rightarrow> json option" where
  "detail_of result =
     (case get_prop result ''detail'' of
        Inr (Some v) \<Rightarrow> if truthy (Some v) then Some v else None
      | _ \<Rightarrow> None)"

definition session_keys :: "string list" where
  "session_keys = [''session_token'', ''user_id'', ''username'', ''role'']"

text \<open>The second state is the first with the session cleared: the four keys are gone
  from \<open>localStorage\<close>, every other key is as it was, and the browser is sent to
  \<open>index.html\<close> when the path of the page contains \<open>dashboard\<close>.\<close>

definition session_cleared :: "browser \<Rightarrow> browser \<Rightarrow> bool" where
  "session_cleared st st' =
     (list_all (\<lambda>k. localStorage st' k = None) session_keys
      \<and> (\<forall>k. k \<notin> set session_keys \<longrightarrow> localStorage st' k = localStorage st k)
      \<and> location_href st' =
          (if js_includes (pathname st) ''dashboard'' then ''index.html'' else location_href st))"


definition json_content :: "response \<Rightarrow> bool" where
  "json_content r = (case resp_contentType r of None \<Rightarrow> False
                     | Some ct \<Rightarrow> js_includes ct ''application/json'')"

section \<open>Example states\<close>

definition dashboard_page :: "(string \<rightharpoonup> string) \<Rightarrow> string option \<Rightarrow> browser" where
  "dashboard_page ls eff =
     \<lparr>localStorage = ls, hostname = ''localhost'', protocol = ''http:'',
      pathname = ''/dashboard.html'', location_href = ''http://localhost:3000/dashboard.html'',
      effectiveDisplayRole = eff, chatPanelOpen = False, proof_modal_hidden = True,
      proof_task_id = '''', proof_file = None\<rparr>"

definition session_of :: "string \<Rightarrow> string \<rightharpoonup> string" where
  "session_of role = [''session_token'' \<mapsto> ''tok'', ''user_id'' \<mapsto> ''7'', ''username'' \<mapsto> ''asha'',
                      ''role'' \<mapsto> role]"

definition json_response :: "nat \<Rightarrow> string \<Rightarrow> json option \<Rightarrow> response" where
  "json_response code text b =
     \<lparr>resp_status = code, resp_statusText = text, resp_contentType = Some ''application/json'',
      resp_body = b\<rparr>"

text \<open>Servers for the examples: one that answers every request with the same response,
  and a network that is down.\<close>

definition always :: "response \<Rightarrow> request \<Rightarrow> response option" where
  "always r req = Some r"


text \<open>The role names the checks compare with.\<close>

definition admin_roles :: "string set" where
  "admin_roles = {''admin'', ''division head''}"

definition lead_roles :: "string set" where
  "lead_roles = {''admin'', ''division head'', ''group head'', ''team lead'', ''project director''}"

text \<open>The role the checks read from \<open>localStorage\<close>: \<open>member\<close> when none is stored.\<close>

definition stored_role :: "browser \<Rightarrow> string" where
  "stored_role st = toLowerCase (or_else (localStorage st ''role'') ''member'')"

text \<open>The role written to \<open>localStorage\<close> is lowercase, if one was written: the second
  state holds the role of the first, or a role that \<open>toLowerCase\<close> leaves as it is.\<close>

definition role_kept_or_lowercase :: "browser \<Rightarrow> browser \<Rightarrow> bool" where
  "role_kept_or_lowercase st st' =
     (localStorage st' ''role'' = localStorage st ''role''
      \<or> (case localStorage st' ''role'' of None \<Rightarrow> False | Some w \<Rightarrow> toLowerCase w = w))"

text \<open>The dashboard of an admin whose teams have loaded, at the moment that admin has
  set the own role to \<open>member\<close> in the user table.\<close>

definition demoted_page :: browser where
  "demoted_page =
     fst (updateUserRole_then (fst (loadUserTeams_then (dashboard_page (session_of ''admin'') None) []))
            7 ''member'')"

text \<open>The role \<open>setupRoleBasedUI\<close> reads from its argument.\<close>

definition norm_role :: "string \<Rightarrow> string" where
  "norm_role r = toLowerCase (or_else (Some r) ''member'')"

text \<open>The login page before anyone has signed in, and what the server answers to a
  login of a user with the given role.\<close>

definition login_page :: browser where
  "login_page =
     \<lparr>localStorage = Map.empty, hostname = ''localhost'', protocol = ''http:'',
      pathname = ''/index.html'', location_href = ''http://localhost:3000/index.html'',
      effectiveDisplayRole = None, chatPanelOpen = False, proof_modal_hidden = True,
      proof_task_id = '''', proof_file = None\<rparr>"

definition login_reply :: "string \<Rightarrow> json" where
  "login_reply role = JObj ((''role'', JStr role) # [(''session_token'', JStr ''tok''), (''user_id'', JNum 7)])"

text \<open>The four statuses of a task, and a task in a given status.\<close>

definition status_values :: "string list" where
  "status_values = [''To Do'', ''In Progress'', ''Pending Completion'', ''Completed'']"

definition task_with_status :: "string \<Rightarrow> task" where
  "task_with_status s =
     \<lparr>t_id = 5, t_activity_id = Some 2, t_status = Some s, t_due_date = Some ''2026-03-02'',
      t_assigned_to = Some 7, t_assigned_username = Some ''asha'', t_can_approve_completion = False,
      t_task_type = None, t_procurement_stage = None, t_extension_status = None,
      t_extension_reason = None, t_extension_requested_due_date = None,
      t_extension_request_id = None, t_completion_status = None, t_completion_request_id = None\<rparr>"

text \<open>The status PUT of a task.\<close>

definition status_put :: "int \<Rightarrow> string \<Rightarrow> action" where
  "status_put taskId v =
     Call \<lparr>call_endpoint = ''/tasks/'' @ num_string taskId @ ''/status'', call_method = ''PUT'',
           call_data = Some (JObj [(''status'', JStr v)]), call_useAuth = True\<rparr>"

text \<open>The call that opens an extension request for a task, and the statuses of the
  extension sub-state from which the client offers it.\<close>

definition is_extension_post :: "int \<Rightarrow> api_call \<Rightarrow> bool" where
  "is_extension_post taskId c =
     (call_method c = ''POST'' \<and> call_endpoint c = ''/tasks/'' @ num_string taskId @ ''/extension-requests'')"

definition extension_open :: "task \<Rightarrow> bool" where
  "extension_open t =
     (or_null (t_extension_status t) = None \<or> t_extension_status t = Some ''approved''
      \<or> t_extension_status t = Some ''rejected'')"

definition pending_extension_task :: task where
  "pending_extension_task =
     (task_with_status ''In Progress'')
       \<lparr>t_extension_status := Some ''pending'', t_extension_reason := Some ''vendor delay'',
        t_extension_requested_due_date := Some ''2026-03-09'', t_extension_request_id := Some 4\<rparr>"

text \<open>The \<open>DELETE\<close> call for a team, and a server with one team that has a member.\<close>

definition team_delete :: "string \<Rightarrow> action" where
  "team_delete teamId =
     Call \<lparr>call_endpoint = ''/teams/'' @ teamId, call_method = ''DELETE'', call_data = None,
           call_useAuth = True\<rparr>"

definition staffed_team :: "server_team list" where
  "staffed_team = [\<lparr>srv_team_id = 3, srv_members = [7], srv_tasks = []\<rparr>]"

text \<open>
  The calendar the claim on working days is stated with: the day number of a calendar
  date (year, month 1 to 12, day of the month), the weekdays (Monday to Friday), the number
  of weekdays from one day up to, and not including, another, and the year, month and day
  that a string of the form YYYY-MM-DD writes.
\<close>

definition civil_day :: "int \<Rightarrow> int \<Rightarrow> int \<Rightarrow> int" where
  "civil_day y m d = MakeDay y (m - 1) d"

definition is_weekday :: "int \<Rightarrow> bool" where
  "is_weekday day = (getUTCDay day \<in> {1, 2, 3, 4, 5})"

definition weekdays_between :: "int \<Rightarrow> int \<Rightarrow> nat" where
  "weekdays_between a b = card {day \<in> {a ..< b}. is_weekday day}"

definition year_of :: "string \<Rightarrow> int" where
  "year_of s = int (digits_val (take 4 s))"

definition month_of :: "string \<Rightarrow> int" where
  "month_of s = int (digits_val (take 2 (drop 5 s)))"

definition day_of :: "string \<Rightarrow> int" where
  "day_of s = int (digits_val (drop 8 s))"

definition due_day :: "string \<Rightarrow> int" where
  "due_day s = civil_day (year_of s) (month_of s) (day_of s)"

chapter \<open>Properties\<close>

section \<open>Requests and the session token\<close>

lemma fetched_apiRequest:
  "fetched (apiRequest st fetch e m d ua) = [apiRequest_options st e m d ua]"
  by (simp add: apiRequest_def Let_def split: option.splits prod.splits)

lemma fetched_apiRequestFormData:
  "fetched (apiRequestFormData st fetch e m fd) = [apiRequestFormData_options st e m fd]"
  by (simp add: apiRequestFormData_def Let_def split: option.splits prod.splits)





section \<open>Responses with status 401\<close>

lemma session_cleared_clear_session: "session_cleared st (clear_session st)"
  by (simp add: session_cleared_def clear_session_def removeItem_def session_keys_def Let_def)

lemma handle_response_401:
  assumes "resp_status r = 401" and "read_result r = Inr result"
  shows "handle_response st r =
           (Inl (if result = JNull then TypeError
                 else Error (case detail_of result of Some v \<Rightarrow> v | None \<Rightarrow> JStr ''Session expired'')),
            clear_session st)"
  using assms by (cases result) (auto simp: handle_response_def detail_of_def Let_def split: option.splits)

text \<open>
  C4, as the code has it. Take a response with status 401 whose body the client can read:
  the content type is not JSON, or it is and \<open>response.json()\<close> resolves. Then both
  \<open>apiRequest\<close> and \<open>apiRequestFormData\<close> remove \<open>session_token\<close>, \<open>user_id\<close>,
  \<open>username\<close> and \<open>role\<close> from \<open>localStorage\<close> and leave every other key, send the
  browser to \<open>index.html\<close> when the path of the page contains \<open>dashboard\<close>, and then
  throw: a \<open>TypeError\<close> when the body is JSON \<open>null\<close>, and otherwise an \<open>Error\<close> that
  carries the detail of the body, or \<open>Session expired\<close> when the body has no truthy
  detail. And for every response, and when there is none, each of the two functions
  hands \<open>fetch\<close> exactly one request: nothing is tried again.
\<close>

theorem unauthorized_clears_session:
  "(resp_status r = 401 \<and> read_result r = Inr result \<longrightarrow>
      (fetch (apiRequest_options st e m d ua) = Some r \<longrightarrow>
         session_cleared st (after (apiRequest st fetch e m d ua))
         \<and> outcome (apiRequest st fetch e m d ua) =
             Inl (if result = JNull then TypeError
                  else Error (case detail_of result of Some v \<Rightarrow> v | None \<Rightarrow> JStr ''Session expired'')))
      \<and> (fetch (apiRequestFormData_options st e m fd) = Some r \<longrightarrow>
           session_cleared st (after (apiRequestFormData st fetch e m fd))
           \<and> outcome (apiRequestFormData st fetch e m fd) =
               Inl (if result = JNull then TypeError
                    else Error (case detail_of result of Some v \<Rightarrow> v | None \<Rightarrow> JStr ''Session expired''))))
   \<and> fetched (apiRequest st fetch e m d ua) = [apiRequest_options st e m d ua]
   \<and> fetched (apiRequestFormData st fetch e m fd) = [apiRequestFormData_options st e m fd]"
proof -
  have "resp_status r = 401 \<and> read_result r = Inr result \<longrightarrow>
      (fetch (apiRequest_options st e m d ua) = Some r \<longrightarrow>
         session_cleared st (after (apiRequest st fetch e m d ua))
         \<and> outcome (apiRequest st fetch e m d ua) =
             Inl (if result = JNull then TypeError
                  else Error (case detail_of result of Some v \<Rightarrow> v | None \<Rightarrow> JStr ''Session expired'')))
      \<and> (fetch (apiRequestFormData_options st e m fd) = Some r \<longrightarrow>
           session_cleared st (after (apiRequestFormData st fetch e m fd))
           \<and> outcome (apiRequestFormData st fetch e m fd) =
               Inl (if result = JNull then TypeError
                    else Error (case detail_of result of Some v \<Rightarrow> v | None \<Rightarrow> JStr ''Session expired'')))"
  proof (intro impI, elim conjE)
    assume h: "resp_status r = 401" "read_result r = Inr result"
    from handle_response_401 [OF h, of st]
    show "(fetch (apiRequest_options st e m d ua) = Some r \<longrightarrow>
         session_cleared st (after (apiRequest st fetch e m d ua))
         \<and> outcome (apiRequest st fetch e m d ua) =
             Inl (if result = JNull then TypeError
                  else Error (case detail_of result of Some v \<Rightarrow> v | None \<Rightarrow> JStr ''Session expired'')))
      \<and> (fetch (apiRequestFormData_options st e m fd) = Some r \<longrightarrow>
           session_cleared st (after (apiRequestFormData st fetch e m fd))
           \<and> outcome (apiRequestFormData st fetch e m fd) =
               Inl (if result = JNull then TypeError
                    else Error (case detail_of result of Some v \<Rightarrow> v | None \<Rightarrow> JStr ''Session expired'')))"
      by (simp add: apiRequest_def apiRequestFormData_def Let_def session_cleared_clear_session)
  qed
  then show ?thesis
    by (simp only: fetched_apiRequest fetched_apiRequestFormData simp_thms)
qed

theorem unauthorized_clears_session_witness:
  "resp_status (json_response 401 ''Unauthorized'' (Some (JObj [(''detail'', JStr ''Invalid session'')]))) = 401
   \<and> read_result (json_response 401 ''Unauthorized'' (Some (JObj [(''detail'', JStr ''Invalid session'')])))
       = Inr (JObj [(''detail'', JStr ''Invalid session'')])
   \<and> session_cleared (dashboard_page (session_of ''member'') None)
        (after (apiRequest (dashboard_page (session_of ''member'') None)
           (always (json_response 401 ''Unauthorized'' (Some (JObj [(''detail'', JStr ''Invalid session'')]))))
           ''/tasks'' ''GET'' None True))
   \<and> outcome (apiRequest (dashboard_page (session_of ''member'') None)
           (always (json_response 401 ''Unauthorized'' (Some (JObj [(''detail'', JStr ''Invalid session'')]))))
           ''/tasks'' ''GET'' None True) = Inl (Error (JStr ''Invalid session''))"
  using unauthorized_clears_session [where
     r = "json_response 401 ''Unauthorized'' (Some (JObj [(''detail'', JStr ''Invalid session'')]))"
     and result = "JObj [(''detail'', JStr ''Invalid session'')]"
     and fetch = "always (json_response 401 ''Unauthorized'' (Some (JObj [(''detail'', JStr ''Invalid session'')])))"
     and st = "dashboard_page (session_of ''member'') None" and e = "''/tasks''" and m = "''GET''"
     and d = None and ua = True]
  by (simp add: json_response_def read_result_def always_def detail_of_def)

text \<open>
  The claim as stated, for every response with status 401, fails when the content type is
  JSON and the body does not parse: \<open>response.json()\<close> rejects before the status is looked
  at, so the promise rejects with that error, the session token stays in \<open>localStorage\<close>
  and the page stays where it is. And when the body is JSON \<open>null\<close> the session is
  cleared, but what is thrown is the \<open>TypeError\<close> of reading \<open>detail\<close> of null, not an
  \<open>Error\<close> with a message.
\<close>

theorem unauthorized_unreadable_counterexample:
  "resp_status (json_response 401 ''Unauthorized'' None) = 401
   \<and> outcome (apiRequest (dashboard_page (session_of ''member'') None)
         (always (json_response 401 ''Unauthorized'' None)) ''/tasks'' ''GET'' None True) = Inl SyntaxError
   \<and> localStorage (after (apiRequest (dashboard_page (session_of ''member'') None)
         (always (json_response 401 ''Unauthorized'' None)) ''/tasks'' ''GET'' None True)) ''session_token''
       = Some ''tok''
   \<and> location_href (after (apiRequest (dashboard_page (session_of ''member'') None)
         (always (json_response 401 ''Unauthorized'' None)) ''/tasks'' ''GET'' None True))
       = ''http://localhost:3000/dashboard.html''
   \<and> outcome (apiRequestFormData (dashboard_page (session_of ''member'') None)
         (always (json_response 401 ''Unauthorized'' None)) ''/tasks/5/completion-requests'' ''POST''
         [(''file'', ''proof.pdf'')]) = Inl SyntaxError
   \<and> localStorage (after (apiRequestFormData (dashboard_page (session_of ''member'') None)
         (always (json_response 401 ''Unauthorized'' None)) ''/tasks/5/completion-requests'' ''POST''
         [(''file'', ''proof.pdf'')])) ''session_token'' = Some ''tok''
   \<and> resp_status (json_response 401 ''Unauthorized'' (Some JNull)) = 401
   \<and> outcome (apiRequest (dashboard_page (session_of ''member'') None)
         (always (json_response 401 ''Unauthorized'' (Some JNull))) ''/tasks'' ''GET'' None True) = Inl TypeError"
  by (simp add: apiRequest_def apiRequestFormData_def always_def json_response_def handle_response_def
        read_result_def dashboard_page_def session_of_def Let_def)

section \<open>What a call returns\<close>

lemma handle_response_ok:
  assumes "ok r" and "read_result r = Inr result"
  shows "handle_response st r = (Inr result, st)"
  using assms by (simp add: handle_response_def ok_def)

lemma handle_response_not_ok:
  assumes "\<not> ok r"
  shows "\<exists>err st'. handle_response st r = (Inl err, st')"
  using assms
  by (cases "read_result r")
     (auto simp: handle_response_def Let_def split: sum.splits option.splits)

lemma handle_response_detail:
  assumes "\<not> ok r" and "read_result r = Inr result" and "detail_of result = Some v"
  shows "fst (handle_response st r) = Inl (Error v)"
  using assms
  by (cases result)
     (auto simp: handle_response_def detail_of_def Let_def split: sum.splits option.splits if_splits)

lemma read_result_cases:
  assumes "read_result r = Inr result"
  shows "(json_content r \<longrightarrow> resp_body r = Some result)
       \<and> (\<not> json_content r \<longrightarrow>
            result = JObj [(''detail'', JStr (if resp_statusText r \<noteq> [] then resp_statusText r
                                               else ''Request failed''))])"
proof (cases "resp_contentType r")
  case None
  with assms show ?thesis by (simp add: read_result_def json_content_def)
next
  case (Some ct)
  have "js_includes [] ''application/json'' = False" by simp
  with Some assms show ?thesis
    by (cases "ct = []") (auto simp: read_result_def json_content_def split: option.splits if_splits)
qed

text \<open>
  C9, as the code has it. \<open>apiRequest\<close> never returns a value from a response that is not
  ok: the promise rejects. When the body can be read (the content type is not JSON, or it
  is and the body parses), the call returns iff the response is ok, and what it returns is
  the body read: the parsed JSON, or the object with \<open>detail\<close> set to the status text (or
  to \<open>Request failed\<close>) when the content type is not JSON. For a response that is not ok
  the error thrown carries the detail of the body when the body has one. The request has a
  body only when \<open>data\<close> is not null and the method is POST or PUT; with GET or DELETE
  nothing is sent.
\<close>

theorem apiRequest_outcome:
  assumes "fetch (apiRequest_options st e m d ua) = Some r"
  shows "(\<not> ok r \<longrightarrow> (\<exists>err. outcome (apiRequest st fetch e m d ua) = Inl err))
       \<and> (read_result r = Inr result \<longrightarrow>
            ((\<exists>v. outcome (apiRequest st fetch e m d ua) = Inr v) \<longleftrightarrow> ok r)
            \<and> (ok r \<longrightarrow> outcome (apiRequest st fetch e m d ua) = Inr result)
            \<and> (\<not> ok r \<longrightarrow> (\<forall>v. detail_of result = Some v \<longrightarrow>
                   outcome (apiRequest st fetch e m d ua) = Inl (Error v)))
            \<and> (json_content r \<longrightarrow> resp_body r = Some result)
            \<and> (\<not> json_content r \<longrightarrow>
                 result = JObj [(''detail'', JStr (if resp_statusText r \<noteq> [] then resp_statusText r
                                                    else ''Request failed''))]))
       \<and> (\<forall>req \<in> set (fetched (apiRequest st fetch e m d ua)).
            (req_body req \<noteq> None \<longrightarrow> d \<noteq> None \<and> (m = ''POST'' \<or> m = ''PUT''))
            \<and> (m = ''GET'' \<or> m = ''DELETE'' \<longrightarrow> req_body req = None))"
proof -
  let ?res = "apiRequest st fetch e m d ua"
  have out: "outcome ?res = fst (handle_response st r)"
    using assms by (simp add: apiRequest_def Let_def split: prod.splits)
  have a: "\<not> ok r \<longrightarrow> (\<exists>err. outcome ?res = Inl err)"
    using handle_response_not_ok [of r st] by (auto simp: out)
  have b: "read_result r = Inr result \<longrightarrow> ok r \<longrightarrow> outcome ?res = Inr result"
    using handle_response_ok [of r result st] by (auto simp: out)
  have c: "read_result r = Inr result \<longrightarrow> \<not> ok r \<longrightarrow>
             (\<forall>v. detail_of result = Some v \<longrightarrow> outcome ?res = Inl (Error v))"
    using handle_response_detail [of r result _ st] by (auto simp: out)
  have d: "\<forall>req \<in> set (fetched ?res).
            (req_body req \<noteq> None \<longrightarrow> d \<noteq> None \<and> (m = ''POST'' \<or> m = ''PUT''))
            \<and> (m = ''GET'' \<or> m = ''DELETE'' \<longrightarrow> req_body req = None)"
    by (auto simp: fetched_apiRequest apiRequest_options_def split: if_splits)
  from a b c d read_result_cases [of r result] show ?thesis by auto
qed

theorem apiRequest_outcome_witness:
  "always (json_response 403 ''Forbidden'' (Some (JObj [(''detail'', JStr ''Not allowed'')])))
      (apiRequest_options (dashboard_page (session_of ''member'') None) ''/teams/3'' ''DELETE''
         (Some (JObj [(''x'', JNum 1)])) True)
     = Some (json_response 403 ''Forbidden'' (Some (JObj [(''detail'', JStr ''Not allowed'')])))
   \<and> \<not> ok (json_response 403 ''Forbidden'' (Some (JObj [(''detail'', JStr ''Not allowed'')])))
   \<and> read_result (json_response 403 ''Forbidden'' (Some (JObj [(''detail'', JStr ''Not allowed'')])))
       = Inr (JObj [(''detail'', JStr ''Not allowed'')])
   \<and> detail_of (JObj [(''detail'', JStr ''Not allowed'')]) = Some (JStr ''Not allowed'')
   \<and> outcome (apiRequest (dashboard_page (session_of ''member'') None)
        (always (json_response 403 ''Forbidden'' (Some (JObj [(''detail'', JStr ''Not allowed'')]))))
        ''/teams/3'' ''DELETE'' (Some (JObj [(''x'', JNum 1)])) True) = Inl (Error (JStr ''Not allowed''))
   \<and> map req_body (fetched (apiRequest (dashboard_page (session_of ''member'') None)
        (always (json_response 403 ''Forbidden'' (Some (JObj [(''detail'', JStr ''Not allowed'')]))))
        ''/teams/3'' ''DELETE'' (Some (JObj [(''x'', JNum 1)])) True)) = [None]"
  using apiRequest_outcome [of
     "always (json_response 403 ''Forbidden'' (Some (JObj [(''detail'', JStr ''Not allowed'')])))"
     "dashboard_page (session_of ''member'') None" "''/teams/3''" "''DELETE''"
     "Some (JObj [(''x'', JNum 1)])" True
     "json_response 403 ''Forbidden'' (Some (JObj [(''detail'', JStr ''Not allowed'')]))"
     "JObj [(''detail'', JStr ''Not allowed'')]"]
  by (simp add: always_def json_response_def ok_def read_result_def detail_of_def
        fetched_apiRequest apiRequest_options_def)

text \<open>
  The claim as stated, for every response, fails for an ok response whose content type is
  JSON and whose body does not parse: the response is ok and the call returns nothing, the
  promise rejects with the error of \<open>response.json()\<close>.
\<close>

theorem ok_unreadable_counterexample:
  "ok (json_response 200 ''OK'' None)
   \<and> outcome (apiRequest (dashboard_page (session_of ''member'') None)
         (always (json_response 200 ''OK'' None)) ''/tasks'' ''GET'' None True) = Inl SyntaxError"
  by (simp add: apiRequest_def always_def json_response_def handle_response_def
        read_result_def ok_def Let_def)

section \<open>Roles are stored and compared in lowercase\<close>

lemma lower_char_idem: "lower_char (lower_char c) = lower_char c"
  by (simp add: lower_char_def upper_lower_table_def)

lemma toLowerCase_idem: "toLowerCase (toLowerCase s) = toLowerCase s"
  by (simp add: toLowerCase_def lower_char_idem)

lemma toLowerCase_Nil: "(toLowerCase s = []) = (s = [])"
  by (simp add: toLowerCase_def)

lemma toLowerCase_eq_Nil: "toLowerCase a = toLowerCase b \<Longrightarrow> (a = []) = (b = [])"
  by (metis toLowerCase_Nil)

lemma toLowerCase_literals:
  "toLowerCase ''member'' = ''member''" "toLowerCase ''division head'' = ''division head''"
  "toLowerCase ''admin'' = ''admin''"
  by (simp_all add: toLowerCase_def lower_char_def upper_lower_table_def)

lemma or_else_lower:
  assumes "map_option toLowerCase x = map_option toLowerCase y"
  shows "toLowerCase (or_else x d) = toLowerCase (or_else y d)"
proof (cases x)
  case None
  with assms show ?thesis by (cases y) (simp_all add: or_else_def)
next
  case (Some a)
  with assms obtain b where y: "y = Some b" and ab: "toLowerCase a = toLowerCase b"
    by (cases y) auto
  from ab have "(a = []) = (b = [])" by (rule toLowerCase_eq_Nil)
  with Some y ab show ?thesis by (simp add: or_else_def)
qed

lemma setItem_role:
  "localStorage (setItem k v st) ''role'' = (if k = ''role'' then Some v else localStorage st ''role'')"
  by (simp add: setItem_def)

lemma login_then_role:
  "(login_then st u res = Inr st' \<longrightarrow> role_kept_or_lowercase st st')
   \<and> (login_then st u res = Inl (err, st') \<longrightarrow> localStorage st' ''role'' = localStorage st ''role'')"
proof (cases "get_prop res ''session_token''")
  case (Inl e)
  then show ?thesis by (auto simp: login_then_def role_kept_or_lowercase_def)
next
  case (Inr tok)
  show ?thesis
  proof (cases "truthy tok")
    case False
    with Inr show ?thesis by (auto simp: login_then_def role_kept_or_lowercase_def)
  next
    case True
    let ?ro = "map_of (case res of JObj kvs \<Rightarrow> kvs | _ \<Rightarrow> []) ''role''"
    show ?thesis
    proof (cases "truthy ?ro")
      case False
      with Inr True show ?thesis
        by (auto simp: login_then_def role_kept_or_lowercase_def Let_def toLowerCase_idem setItem_role)
    next
      case t: True
      then obtain v where v: "?ro = Some v" by (cases ?ro) auto
      show ?thesis
      proof (cases v)
        case (JStr s)
        with Inr True t v show ?thesis
          by (auto simp: login_then_def role_kept_or_lowercase_def Let_def toLowerCase_idem setItem_role)
      qed (use Inr True t v in \<open>auto simp: login_then_def role_kept_or_lowercase_def Let_def setItem_role\<close>)
    qed
  qed
qed

lemma sync_then_role:
  "(sync_then st me = Inr (st', ui) \<longrightarrow> role_kept_or_lowercase st st')
   \<and> (sync_then st me = Inl (err, st') \<longrightarrow> localStorage st' ''role'' = localStorage st ''role'')"
proof (cases "truthy (Some me)")
  case False
  then show ?thesis by (auto simp: sync_then_def role_kept_or_lowercase_def)
next
  case True
  let ?ro = "map_of (case me of JObj kvs \<Rightarrow> kvs | _ \<Rightarrow> []) ''role''"
  let ?un = "map_of (case me of JObj kvs \<Rightarrow> kvs | _ \<Rightarrow> []) ''username''"
  let ?st1 = "(case ?un of Some v \<Rightarrow> if truthy ?un then setItem ''username'' (js_String v) st else st
               | None \<Rightarrow> st)"
  have st1: "localStorage ?st1 ''role'' = localStorage st ''role''"
    by (cases ?un) (simp_all add: setItem_role)
  have ok: "\<And>w. sync_then st me =
      (let serverRole = toLowerCase w in
       if serverRole \<noteq> toLowerCase (or_else (localStorage ?st1 ''role'') ''member'')
       then (let st2 = setItem ''role'' serverRole ?st1 in Inr (st2, Some (setupRoleBasedUI st2 serverRole)))
       else Inr (?st1, None))
     \<Longrightarrow> ?thesis"
    using st1 by (auto simp: Let_def role_kept_or_lowercase_def setItem_role toLowerCase_idem split: if_splits)
  show ?thesis
  proof (cases "truthy ?ro")
    case False
    with True have "sync_then st me =
      (let serverRole = toLowerCase ''member'' in
       if serverRole \<noteq> toLowerCase (or_else (localStorage ?st1 ''role'') ''member'')
       then (let st2 = setItem ''role'' serverRole ?st1 in Inr (st2, Some (setupRoleBasedUI st2 serverRole)))
       else Inr (?st1, None))"
      by (simp add: sync_then_def Let_def)
    then show ?thesis by (rule ok)
  next
    case t: True
    then obtain v where v: "?ro = Some v" by (cases ?ro) auto
    show ?thesis
    proof (cases v)
      case (JStr s)
      with True t v have "sync_then st me =
        (let serverRole = toLowerCase s in
         if serverRole \<noteq> toLowerCase (or_else (localStorage ?st1 ''role'') ''member'')
         then (let st2 = setItem ''role'' serverRole ?st1 in Inr (st2, Some (setupRoleBasedUI st2 serverRole)))
         else Inr (?st1, None))"
        by (simp add: sync_then_def Let_def)
      then show ?thesis by (rule ok)
    qed (use True t v in \<open>auto simp: sync_then_def Let_def\<close>)
  qed
qed


lemma role_buttons:
  "(btnDivHead_onclick confirmed uid = Some (newRole, c) \<longrightarrow> newRole = ''division head'')
   \<and> (btnMember_onclick confirmed uid = Some (newRole, c) \<longrightarrow> newRole = ''member'')"
  by (simp add: btnDivHead_onclick_def btnMember_onclick_def setUserRoleConfirm_def)

lemma updateUserRole_then_role:
  "toLowerCase newRole = newRole \<Longrightarrow>
     role_kept_or_lowercase st (fst (updateUserRole_then st uid newRole))"
  by (simp add: updateUserRole_then_def role_kept_or_lowercase_def setItem_role Let_def)

lemma checks_lower:
  assumes "map_option toLowerCase (localStorage st1 ''role'') = map_option toLowerCase (localStorage st2 ''role'')"
      and "map_option toLowerCase (effectiveDisplayRole st1) = map_option toLowerCase (effectiveDisplayRole st2)"
  shows "getEffectiveRole st1 = getEffectiveRole st2 \<and> isUserAdmin st1 = isUserAdmin st2
       \<and> canAssignTask st1 = canAssignTask st2 \<and> canUseMultiAssign st1 = canUseMultiAssign st2"
proof -
  from assms(1) have s: "toLowerCase (or_else (localStorage st1 ''role'') ''member'')
                       = toLowerCase (or_else (localStorage st2 ''role'') ''member'')"
    by (rule or_else_lower)
  have e: "getEffectiveRole st1 = getEffectiveRole st2"
  proof (cases "effectiveDisplayRole st1")
    case None
    with assms(2) have "effectiveDisplayRole st2 = None" by (cases "effectiveDisplayRole st2") auto
    with None s show ?thesis by (simp add: getEffectiveRole_def)
  next
    case (Some a)
    with assms(2) obtain b where "effectiveDisplayRole st2 = Some b" "toLowerCase a = toLowerCase b"
      by (cases "effectiveDisplayRole st2") auto
    with Some show ?thesis by (simp add: getEffectiveRole_def)
  qed
  from s e show ?thesis
    by (simp add: isUserAdmin_def canAssignTask_def canUseMultiAssign_def)
qed

lemma login_then_case:
  assumes "toLowerCase r1 = toLowerCase r2"
  shows "login_then st u (JObj ((''role'', JStr r1) # kvs)) = login_then st u (JObj ((''role'', JStr r2) # kvs))"
  using assms toLowerCase_eq_Nil [OF assms]
  by (simp add: login_then_def Let_def)

lemma sync_then_case:
  assumes "toLowerCase r1 = toLowerCase r2"
  shows "sync_then st (JObj ((''role'', JStr r1) # kvs)) = sync_then st (JObj ((''role'', JStr r2) # kvs))"
  using assms toLowerCase_eq_Nil [OF assms]
  by (simp add: sync_then_def Let_def)

text \<open>
  C10. Every role the client writes to the \<open>role\<close> key of \<open>localStorage\<close> is lowercase:
  the \<open>then\<close> handler of \<open>login\<close> and the one of the \<open>/users/me\<close> call either leave the
  stored role as it was or store a string that \<open>toLowerCase\<close> does not change, and the
  two buttons of the user table pass a lowercase role, which is what is stored when the
  user changed is the one signed in. \<open>getEffectiveRole\<close>, \<open>isUserAdmin\<close>,
  \<open>canAssignTask\<close> and \<open>canUseMultiAssign\<close> give the same answers in two states whose
  stored and effective roles differ only in letter case. So two server replies that differ
  only in the letter case of the role leave the same state, at login and at the sync.
\<close>

theorem stored_role_lowercase:
  "(login_then st u res = Inr st' \<longrightarrow> role_kept_or_lowercase st st')
   \<and> (login_then st u res = Inl (err, st') \<longrightarrow> localStorage st' ''role'' = localStorage st ''role'')
   \<and> (sync_then st me = Inr (st', ui) \<longrightarrow> role_kept_or_lowercase st st')
   \<and> (sync_then st me = Inl (err, st') \<longrightarrow> localStorage st' ''role'' = localStorage st ''role'')
   \<and> ((btnDivHead_onclick confirmed uid = Some (newRole, c) \<or> btnMember_onclick confirmed uid = Some (newRole, c))
        \<longrightarrow> toLowerCase newRole = newRole
            \<and> role_kept_or_lowercase st (fst (updateUserRole_then st uid newRole)))
   \<and> (map_option toLowerCase (localStorage st1 ''role'') = map_option toLowerCase (localStorage st2 ''role'')
        \<and> map_option toLowerCase (effectiveDisplayRole st1) = map_option toLowerCase (effectiveDisplayRole st2)
        \<longrightarrow> getEffectiveRole st1 = getEffectiveRole st2 \<and> isUserAdmin st1 = isUserAdmin st2
            \<and> canAssignTask st1 = canAssignTask st2 \<and> canUseMultiAssign st1 = canUseMultiAssign st2)
   \<and> (toLowerCase r1 = toLowerCase r2 \<longrightarrow>
        login_then st u (JObj ((''role'', JStr r1) # kvs)) = login_then st u (JObj ((''role'', JStr r2) # kvs))
        \<and> sync_then st (JObj ((''role'', JStr r1) # kvs)) = sync_then st (JObj ((''role'', JStr r2) # kvs)))"
proof -
  have b: "(btnDivHead_onclick confirmed uid = Some (newRole, c) \<or> btnMember_onclick confirmed uid = Some (newRole, c))
        \<longrightarrow> toLowerCase newRole = newRole
            \<and> role_kept_or_lowercase st (fst (updateUserRole_then st uid newRole))"
    using role_buttons [of confirmed uid newRole c] updateUserRole_then_role [of newRole st uid]
    by (auto simp: toLowerCase_literals)
  from login_then_role [of st u res st' err] sync_then_role [of st me st' ui err] b
       checks_lower [of st1 st2] login_then_case [of r1 r2 st u kvs] sync_then_case [of r1 r2 st kvs]
  show ?thesis by blast
qed


theorem stored_role_lowercase_witness:
  "login_then login_page ''asha'' (login_reply ''Admin'')
     = Inr ((setItem ''role'' ''admin'' (setItem ''username'' ''asha'' (setItem ''user_id'' ''7''
              (setItem ''session_token'' ''tok'' login_page))))\<lparr>location_href := ''dashboard.html''\<rparr>)
   \<and> role_kept_or_lowercase login_page
        ((setItem ''role'' ''admin'' (setItem ''username'' ''asha'' (setItem ''user_id'' ''7''
              (setItem ''session_token'' ''tok'' login_page))))\<lparr>location_href := ''dashboard.html''\<rparr>)
   \<and> btnMember_onclick True 7 = Some (''member'', updateUserRole 7 ''member'')
   \<and> toLowerCase ''member'' = ''member''
   \<and> toLowerCase ''Admin'' = toLowerCase ''ADMIN''
   \<and> login_then login_page ''asha'' (login_reply ''Admin'') = login_then login_page ''asha'' (login_reply ''ADMIN'')"
  using stored_role_lowercase [where st = login_page and u = "''asha''" and res = "login_reply ''Admin''"
     and st' = "(setItem ''role'' ''admin'' (setItem ''username'' ''asha'' (setItem ''user_id'' ''7''
              (setItem ''session_token'' ''tok'' login_page))))\<lparr>location_href := ''dashboard.html''\<rparr>"
     and confirmed = True and uid = 7 and newRole = "''member''" and c = "updateUserRole 7 ''member''"
     and ?r1.0 = "''Admin''" and ?r2.0 = "''ADMIN''"
     and kvs = "[(''session_token'', JStr ''tok''), (''user_id'', JNum 7)]"]
  by (simp add: login_then_def login_reply_def Let_def num_string_def
        btnMember_onclick_def setUserRoleConfirm_def toLowerCase_def lower_char_def upper_lower_table_def)

section \<open>The permission table and the sections shown\<close>

lemma lower_examples:
  "toLowerCase ''team lead'' = ''team lead''" "toLowerCase ''Team Lead'' = ''team lead''"
  "toLowerCase ''Admin'' = ''admin''" "toLowerCase ''group head'' = ''group head''"
  "toLowerCase ''project director'' = ''project director''"
  by code_simp+

lemma example_fields:
  "localStorage (dashboard_page (session_of role) eff) ''role'' = Some role"
  "localStorage (dashboard_page (session_of role) eff) ''user_id'' = Some ''7''"
  "localStorage (dashboard_page (session_of role) eff) ''session_token'' = Some ''tok''"
  "effectiveDisplayRole (dashboard_page ls eff) = eff"
  "chatPanelOpen (dashboard_page ls eff) = False"
  by (simp_all add: dashboard_page_def session_of_def)

lemma parseInt_7: "parseInt ''7'' = Some 7"
  by code_simp

lemma stored_role_nonempty: "stored_role st \<noteq> []"
  by (cases "localStorage st ''role''") (simp_all add: stored_role_def or_else_def toLowerCase_Nil)

lemma norm_role_stored: "norm_role (stored_role st) = stored_role st"
  using stored_role_nonempty [of st]
  by (simp add: norm_role_def or_else_def) (simp add: stored_role_def toLowerCase_idem)

lemma first_privileged_role_mem:
  "first_privileged_role ts = Some r \<Longrightarrow> r \<in> {''project director'', ''group head'', ''team lead''}"
  by (induction ts) (auto simp: Let_def split: if_splits)

lemma privileged_lower:
  "r \<in> {''project director'', ''group head'', ''team lead''} \<Longrightarrow>
     toLowerCase r = r \<and> r \<noteq> [] \<and> r \<noteq> ''admin'' \<and> r \<noteq> ''division head''"
  by (auto simp: toLowerCase_def lower_char_def upper_lower_table_def)

text \<open>The role \<open>loadUserTeams\<close> computes.\<close>

lemma loadUserTeams_then_eff:
  "\<exists>eff. fst (loadUserTeams_then st teams) = st\<lparr>effectiveDisplayRole := Some eff\<rparr>
         \<and> snd (loadUserTeams_then st teams) = setupRoleBasedUI (st\<lparr>effectiveDisplayRole := Some eff\<rparr>) eff
         \<and> toLowerCase eff = eff \<and> eff \<noteq> []
         \<and> (eff \<in> admin_roles \<longleftrightarrow> stored_role st \<in> admin_roles)"
proof -
  define eff where "eff = (if stored_role st \<in> admin_roles then stored_role st
                           else (case first_privileged_role teams of Some r \<Rightarrow> r | None \<Rightarrow> stored_role st))"
  have lt: "loadUserTeams_then st teams
              = (st\<lparr>effectiveDisplayRole := Some eff\<rparr>,
                 setupRoleBasedUI (st\<lparr>effectiveDisplayRole := Some eff\<rparr>) eff)"
    by (simp add: loadUserTeams_then_def Let_def eff_def stored_role_def admin_roles_def
          split: option.split)
  have sr: "toLowerCase (stored_role st) = stored_role st"
    by (simp add: stored_role_def toLowerCase_idem)
  have props: "toLowerCase eff = eff \<and> eff \<noteq> [] \<and> (eff \<in> admin_roles \<longleftrightarrow> stored_role st \<in> admin_roles)"
  proof (cases "stored_role st \<in> admin_roles")
    case True
    then show ?thesis using sr stored_role_nonempty [of st] by (simp add: eff_def)
  next
    case False
    show ?thesis
    proof (cases "first_privileged_role teams")
      case None
      with False show ?thesis using sr stored_role_nonempty [of st] by (simp add: eff_def)
    next
      case (Some r)
      from first_privileged_role_mem [OF Some]
      have "toLowerCase r = r \<and> r \<noteq> [] \<and> r \<noteq> ''admin'' \<and> r \<noteq> ''division head''"
        by (rule privileged_lower)
      with Some False show ?thesis by (simp add: eff_def admin_roles_def)
    qed
  qed
  from lt props show ?thesis by (intro exI [of _ eff]) simp
qed

lemma isUserAdmin_stored: "isUserAdmin st = (stored_role st \<in> admin_roles)"
  by (simp add: isUserAdmin_def stored_role_def admin_roles_def Let_def)

lemma canAssignTask_stored: "canAssignTask st = (stored_role st \<in> admin_roles)"
  by (simp add: canAssignTask_def stored_role_def admin_roles_def Let_def)

lemma canUseMultiAssign_eff: "canUseMultiAssign st = (getEffectiveRole st \<in> lead_roles)"
  by (auto simp: canUseMultiAssign_def lead_roles_def)

lemma admin_lead: "r \<in> admin_roles \<Longrightarrow> r \<in> lead_roles"
  by (auto simp: admin_roles_def lead_roles_def)

lemma setupRoleBasedUI_sections:
  "team_section_display (setupRoleBasedUI st r) = (if norm_role r \<in> lead_roles then '''' else ''none'')
   \<and> delete_team_card_display (setupRoleBasedUI st r) = (if norm_role r \<in> admin_roles then '''' else ''none'')
   \<and> remove_member_card_display (setupRoleBasedUI st r) = (if norm_role r \<in> lead_roles then '''' else ''none'')
   \<and> task_closure_group_hidden (setupRoleBasedUI st r) = (norm_role r \<notin> lead_roles)
   \<and> users_section_display (setupRoleBasedUI st r) = (if norm_role r \<in> admin_roles then ''block'' else ''none'')"
  by (simp add: setupRoleBasedUI_def Let_def norm_role_def lead_roles_def admin_roles_def)

lemma setupRoleBasedUI_assign:
  "multi_wrap_display (setupRoleBasedUI st r) = (if canUseMultiAssign st then ''block'' else ''none'')
   \<and> single_wrap_display (setupRoleBasedUI st r)
       = (if \<not> canUseMultiAssign st \<and> canAssignTask st then '''' else ''none'')"
  by (simp add: setupRoleBasedUI_def Let_def)

lemma setupRoleBasedUI_synced:
  assumes "getEffectiveRole st = norm_role r"
      and "stored_role st \<in> admin_roles \<longleftrightarrow> norm_role r \<in> admin_roles"
  shows "multi_wrap_display (setupRoleBasedUI st r) = (if norm_role r \<in> lead_roles then ''block'' else ''none'')
       \<and> single_wrap_display (setupRoleBasedUI st r) = ''none''"
  using assms admin_lead [of "norm_role r"]
  by (auto simp: setupRoleBasedUI_assign canUseMultiAssign_eff canAssignTask_stored)

lemma setupRoleBasedUI_cong:
  assumes "getEffectiveRole st1 = getEffectiveRole st2" and "stored_role st1 = stored_role st2"
  shows "setupRoleBasedUI st1 r = setupRoleBasedUI st2 r"
proof -
  have "canUseMultiAssign st1 = canUseMultiAssign st2" "canAssignTask st1 = canAssignTask st2"
    using assms by (simp_all add: canUseMultiAssign_eff canAssignTask_stored)
  then show ?thesis by (simp add: setupRoleBasedUI_def)
qed

lemma page_load_synced:
  assumes "effectiveDisplayRole st = None"
  shows "multi_wrap_display (setupRoleBasedUI st (stored_role st))
           = (if stored_role st \<in> lead_roles then ''block'' else ''none'')"
proof -
  have "getEffectiveRole st = norm_role (stored_role st)"
    using assms by (simp add: getEffectiveRole_def norm_role_stored) (simp add: stored_role_def)
  from setupRoleBasedUI_synced [OF this] show ?thesis by (simp add: norm_role_stored)
qed

lemma teams_loaded_synced:
  "multi_wrap_display (snd (loadUserTeams_then st teams))
     = (if getEffectiveRole (fst (loadUserTeams_then st teams)) \<in> lead_roles then ''block'' else ''none'')"
proof -
  obtain eff where e: "fst (loadUserTeams_then st teams) = st\<lparr>effectiveDisplayRole := Some eff\<rparr>"
      "snd (loadUserTeams_then st teams) = setupRoleBasedUI (st\<lparr>effectiveDisplayRole := Some eff\<rparr>) eff"
    using loadUserTeams_then_eff [of st teams] by blast
  show ?thesis by (simp add: e setupRoleBasedUI_assign canUseMultiAssign_eff)
qed

text \<open>
  C3, as the code has it. \<open>canAssignTask\<close> is a function of the stored role: it holds
  iff that role, in lowercase, is \<open>admin\<close> or \<open>division head\<close>. \<open>canUseMultiAssign\<close> is a
  function of the effective role (\<open>effectiveDisplayRole\<close> when it is set, the stored role
  otherwise): it holds iff that role is one of \<open>admin\<close>, \<open>division head\<close>, \<open>group head\<close>,
  \<open>team lead\<close>, \<open>project director\<close>. \<open>setupRoleBasedUI(r)\<close> decides the team-creation,
  delete-team, remove-member, closure-control and user-management sections from \<open>r\<close>
  alone, and the assignment sections from \<open>canUseMultiAssign()\<close> and \<open>canAssignTask()\<close>,
  not from \<open>r\<close>. When \<open>r\<close> is the effective role and is an admin role exactly when the
  stored role is one, as at page load and in \<open>loadUserTeams\<close>, the multi-assign section is
  shown iff \<open>r\<close> is one of the five roles and the single-assign section is hidden. States
  with equal stored and effective roles get equal sections from equal arguments.
\<close>

theorem permission_table:
  "(canAssignTask st \<longleftrightarrow> stored_role st \<in> admin_roles)
   \<and> (canUseMultiAssign st \<longleftrightarrow> getEffectiveRole st \<in> lead_roles)
   \<and> team_section_display (setupRoleBasedUI st r) = (if norm_role r \<in> lead_roles then '''' else ''none'')
   \<and> delete_team_card_display (setupRoleBasedUI st r) = (if norm_role r \<in> admin_roles then '''' else ''none'')
   \<and> remove_member_card_display (setupRoleBasedUI st r) = (if norm_role r \<in> lead_roles then '''' else ''none'')
   \<and> task_closure_group_hidden (setupRoleBasedUI st r) = (norm_role r \<notin> lead_roles)
   \<and> users_section_display (setupRoleBasedUI st r) = (if norm_role r \<in> admin_roles then ''block'' else ''none'')
   \<and> multi_wrap_display (setupRoleBasedUI st r) = (if canUseMultiAssign st then ''block'' else ''none'')
   \<and> single_wrap_display (setupRoleBasedUI st r)
       = (if \<not> canUseMultiAssign st \<and> canAssignTask st then '''' else ''none'')
   \<and> (getEffectiveRole st = norm_role r \<and> (stored_role st \<in> admin_roles \<longleftrightarrow> norm_role r \<in> admin_roles)
        \<longrightarrow> multi_wrap_display (setupRoleBasedUI st r) = (if norm_role r \<in> lead_roles then ''block'' else ''none'')
            \<and> single_wrap_display (setupRoleBasedUI st r) = ''none'')
   \<and> (effectiveDisplayRole st = None
        \<longrightarrow> multi_wrap_display (setupRoleBasedUI st (stored_role st))
              = (if stored_role st \<in> lead_roles then ''block'' else ''none''))
   \<and> multi_wrap_display (snd (loadUserTeams_then st teams))
       = (if getEffectiveRole (fst (loadUserTeams_then st teams)) \<in> lead_roles then ''block'' else ''none'')
   \<and> (getEffectiveRole st = getEffectiveRole st2 \<and> stored_role st = stored_role st2
        \<longrightarrow> setupRoleBasedUI st r = setupRoleBasedUI st2 r)"
  using setupRoleBasedUI_sections [of st r] setupRoleBasedUI_assign [of st r]
        setupRoleBasedUI_synced [of st r] page_load_synced [of st] teams_loaded_synced [of st teams]
        setupRoleBasedUI_cong [of st st2 r] canAssignTask_stored [of st] canUseMultiAssign_eff [of st]
  by blast

theorem permission_table_witness:
  "getEffectiveRole (dashboard_page (session_of ''Team Lead'') None) = norm_role ''team lead''
   \<and> (stored_role (dashboard_page (session_of ''Team Lead'') None) \<in> admin_roles
        \<longleftrightarrow> norm_role ''team lead'' \<in> admin_roles)
   \<and> effectiveDisplayRole (dashboard_page (session_of ''Team Lead'') None) = None
   \<and> norm_role ''team lead'' \<in> lead_roles
   \<and> multi_wrap_display (setupRoleBasedUI (dashboard_page (session_of ''Team Lead'') None) ''team lead'') = ''block''
   \<and> single_wrap_display (setupRoleBasedUI (dashboard_page (session_of ''Team Lead'') None) ''team lead'') = ''none''
   \<and> team_section_display (setupRoleBasedUI (dashboard_page (session_of ''Team Lead'') None) ''team lead'') = ''''
   \<and> users_section_display (setupRoleBasedUI (dashboard_page (session_of ''Team Lead'') None) ''team lead'') = ''none''"
  using permission_table [of "dashboard_page (session_of ''Team Lead'') None" "''team lead''" "[]"
     "dashboard_page (session_of ''Team Lead'') None"]
  by (simp add: getEffectiveRole_def stored_role_def norm_role_def example_fields lower_examples
        or_else_def admin_roles_def lead_roles_def)

text \<open>
  The claim as stated fails for the assignment sections: they are not a function of the
  role string. An admin whose teams have loaded sets the own role to \<open>member\<close>; the handler
  stores \<open>member\<close> and calls \<open>setupRoleBasedUI("member")\<close>, and the multi-assign section
  is shown, \<open>effectiveDisplayRole\<close> still being \<open>admin\<close>. The same call on a page where
  no effective role is set hides it.
\<close>

theorem stale_role_sections_counterexample:
  "norm_role ''member'' = ''member'' \<and> ''member'' \<notin> lead_roles
   \<and> localStorage demoted_page ''role'' = Some ''member''
   \<and> map_option multi_wrap_display
        (snd (updateUserRole_then
                (fst (loadUserTeams_then (dashboard_page (session_of ''admin'') None) [])) 7 ''member''))
       = Some ''block''
   \<and> multi_wrap_display (setupRoleBasedUI (dashboard_page (session_of ''member'') None) ''member'') = ''none''"
  by (simp add: norm_role_def lead_roles_def demoted_page_def updateUserRole_then_def
        loadUserTeams_then_def setupRoleBasedUI_def canUseMultiAssign_def canAssignTask_def
        getEffectiveRole_def example_fields setItem_def parseInt_7
        or_else_def Let_def toLowerCase_literals)

section \<open>Completing a task\<close>
















section \<open>The status control of privileged roles\<close>

lemma status_value_plain:
  "v \<in> set status_values \<Longrightarrow>
     v \<noteq> ''__change_due_date__'' \<and> v \<noteq> ''__unassign_task__'' \<and> v \<noteq> ''__delete_task__''
     \<and> v \<noteq> ''__delete_activity__''"
  by (auto simp: status_values_def)

lemma handleActionSelect_status:
  assumes "v \<in> set status_values" and "isUserAdmin st"
  shows "handleActionSelect st taskId activityId cur v answer confirmed = (st, [status_put taskId v])"
  using status_value_plain [OF assms(1)] assms(2)
  by (simp add: handleActionSelect_def updateStatus_def status_put_def)

lemma actions_cell_fields:
  "sel_disabled (actions_cell st t) = (t_status t = Some ''Pending Completion'')
   \<and> sel_options (actions_cell st t) = statusOpts st t
   \<and> sel_taskId (actions_cell st t) = t_id t
   \<and> sel_title (actions_cell st t) = (if t_status t = Some ''Pending Completion'' then ''Awaiting approval'' else '''')"
  by (simp add: actions_cell_def buildActionsCellHtml_def Let_def statusDisabled_def)


lemma four_options:
  "v \<in> set status_values \<Longrightarrow> \<exists>opt \<in> set (statusOpts st t). opt_value opt = v \<and> \<not> opt_disabled opt"
  unfolding statusOpts_def status_values_def
  by (simp add: Let_def) blast


text \<open>
  C2, as the code has it. For a user whose stored role is \<open>admin\<close> or \<open>division head\<close> and
  a task whose status is not Pending Completion, the status control offers each of the four
  statuses (To Do, In Progress, Pending Completion, Completed), and choosing one sends
  \<open>PUT /tasks/{id}/status\<close> with the value chosen. For a task whose status is Pending
  Completion the control is disabled, with the title \<open>Awaiting approval\<close>, whatever the
  role: nothing is offered and nothing can be chosen in it.
\<close>

theorem privileged_status_transitions:
  "(isUserAdmin st \<and> t_status t \<noteq> Some ''Pending Completion'' \<and> v \<in> set status_values \<longrightarrow>
      offered (actions_cell st t) v
      \<and> choose_status st (actions_cell st t) v answer confirmed = Some (st, [status_put (t_id t) v]))
   \<and> (t_status t = Some ''Pending Completion'' \<longrightarrow>
        sel_disabled (actions_cell st t) \<and> sel_title (actions_cell st t) = ''Awaiting approval''
        \<and> \<not> offered (actions_cell st t) v
        \<and> choose_status st (actions_cell st t) v answer confirmed = None)"
proof -
  have a: "isUserAdmin st \<and> t_status t \<noteq> Some ''Pending Completion'' \<and> v \<in> set status_values \<longrightarrow>
      offered (actions_cell st t) v
      \<and> choose_status st (actions_cell st t) v answer confirmed = Some (st, [status_put (t_id t) v])"
  proof (intro impI, elim conjE)
    assume adm: "isUserAdmin st" and np: "t_status t \<noteq> Some ''Pending Completion''"
       and v: "v \<in> set status_values"
    have off: "offered (actions_cell st t) v"
      using four_options [OF v, of st t] np by (simp add: offered_def actions_cell_fields)
    moreover have "handleActionSelect st (sel_taskId (actions_cell st t)) (sel_activityId (actions_cell st t))
                     (sel_currentStatus (actions_cell st t)) v answer confirmed
                   = (st, [status_put (t_id t) v])"
      using handleActionSelect_status [OF v adm] by (simp add: actions_cell_fields)
    ultimately show "offered (actions_cell st t) v
      \<and> choose_status st (actions_cell st t) v answer confirmed = Some (st, [status_put (t_id t) v])"
      by (simp add: choose_status_def)
  qed
  have b: "t_status t = Some ''Pending Completion'' \<longrightarrow>
        sel_disabled (actions_cell st t) \<and> sel_title (actions_cell st t) = ''Awaiting approval''
        \<and> \<not> offered (actions_cell st t) v
        \<and> choose_status st (actions_cell st t) v answer confirmed = None"
    by (simp add: actions_cell_fields offered_def choose_status_def)
  from a b show ?thesis by blast
qed


lemma admin_page: "isUserAdmin (dashboard_page (session_of ''admin'') None)"
  by (simp add: isUserAdmin_stored stored_role_def example_fields or_else_def toLowerCase_literals
        admin_roles_def)

lemma task_with_status_fields:
  "t_status (task_with_status s) = Some s" "t_id (task_with_status s) = 5"
  by (simp_all add: task_with_status_def)

theorem privileged_status_transitions_witness:
  "isUserAdmin (dashboard_page (session_of ''admin'') None)
   \<and> t_status (task_with_status ''To Do'') \<noteq> Some ''Pending Completion''
   \<and> ''Completed'' \<in> set status_values
   \<and> choose_status (dashboard_page (session_of ''admin'') None)
        (actions_cell (dashboard_page (session_of ''admin'') None) (task_with_status ''To Do''))
        ''Completed'' None False
       = Some (dashboard_page (session_of ''admin'') None, [status_put 5 ''Completed''])
   \<and> t_status (task_with_status ''Pending Completion'') = Some ''Pending Completion''
   \<and> sel_disabled (actions_cell (dashboard_page (session_of ''admin'') None)
        (task_with_status ''Pending Completion''))"
  using privileged_status_transitions [where st = "dashboard_page (session_of ''admin'') None"
          and t = "task_with_status ''To Do''" and v = "''Completed''" and answer = None and confirmed = False]
        privileged_status_transitions [where st = "dashboard_page (session_of ''admin'') None"
          and t = "task_with_status ''Pending Completion''"]
  by (simp add: admin_page task_with_status_fields status_values_def)

text \<open>
  The claim as stated, from any current status, fails for a task in Pending Completion: an
  admin is not offered the status Completed, the control is disabled.
\<close>

theorem pending_completion_disabled_counterexample:
  "isUserAdmin (dashboard_page (session_of ''admin'') None)
   \<and> ''Completed'' \<in> set status_values
   \<and> sel_disabled (actions_cell (dashboard_page (session_of ''admin'') None)
        (task_with_status ''Pending Completion''))
   \<and> \<not> offered (actions_cell (dashboard_page (session_of ''admin'') None)
        (task_with_status ''Pending Completion'')) ''Completed''
   \<and> choose_status (dashboard_page (session_of ''admin'') None)
        (actions_cell (dashboard_page (session_of ''admin'') None) (task_with_status ''Pending Completion''))
        ''Completed'' None False = None"
  by (simp add: admin_page task_with_status_fields status_values_def actions_cell_fields offered_def
        choose_status_def)

section \<open>Extension requests\<close>

lemma or_null_Some: "(or_null x = Some s) = (x = Some s \<and> s \<noteq> [])"
  by (cases x) (auto simp: or_null_def)

lemma extension_button_pending:
  assumes "t_extension_status t = Some ''pending''"
  shows "btn_label (extension_button st t) = ''Pending''
       \<and> btn_disabled (extension_button st t) = (\<not> isUserAdmin st)
       \<and> btn_onclick (extension_button st t)
           = (if isUserAdmin st
              then Some (ReviewExtensionRequest
                           (case or_null_num (t_extension_request_id t) of None \<Rightarrow> 0 | Some n \<Rightarrow> n) (t_id t))
              else None)"
  using assms by (simp add: extension_button_def Let_def or_null_def)

lemma extension_button_open:
  "btn_onclick (extension_button st t) = Some (OpenExtensionRequest tid due)
     \<Longrightarrow> extension_open t \<and> tid = t_id t"
  by (auto simp: extension_button_def extension_open_def Let_def or_null_Some split: if_splits)

lemma review_only_puts:
  "Call c \<in> set (reviewExtensionRequest st requestId taskId btn approve finalInput)
     \<Longrightarrow> call_method c = ''PUT''"
  by (auto simp: reviewExtensionRequest_def Let_def split: if_splits option.splits)

lemma open_posts:
  "Call c \<in> set (openExtensionRequest taskId due p1 p2) \<Longrightarrow> is_extension_post taskId c"
  by (auto simp: openExtensionRequest_def is_extension_post_def Let_def split: if_splits option.splits)

lemma click_post_only_when_open:
  assumes "Call c \<in> set (click_extension st (extension_button st t) p1 p2 confirmed)"
      and "call_method c = ''POST''"
  shows "extension_open t \<and> is_extension_post (t_id t) c"
proof (cases "btn_onclick (extension_button st t)")
  case None
  with assms show ?thesis by (auto simp: click_extension_def split: if_splits)
next
  case (Some k)
  show ?thesis
  proof (cases k)
    case (OpenExtensionRequest tid due)
    with Some extension_button_open [of st t tid due] have o: "extension_open t" "tid = t_id t" by auto
    from assms(1) Some OpenExtensionRequest have "Call c \<in> set (openExtensionRequest tid due p1 p2)"
      by (simp add: click_extension_def split: if_splits)
    from open_posts [OF this] o show ?thesis by simp
  next
    case (ReviewExtensionRequest rid tid)
    with assms(1) Some have "Call c \<in> set (reviewExtensionRequest st rid tid (extension_button st t) confirmed p1)"
      by (simp add: click_extension_def split: if_splits)
    from review_only_puts [OF this] assms(2) show ?thesis by simp
  qed
qed

lemma date_format_nonempty: "is_date_format s \<Longrightarrow> s \<noteq> []"
  by (auto simp: is_date_format_def)

lemma review_with_new_due_date:
  assumes "isUserAdmin st" and "requestId \<noteq> 0" and "is_date_format (trim f)"
  shows "reviewExtensionRequest st requestId taskId btn True (Some f)
           = [Call \<lparr>call_endpoint = ''/tasks/extension-requests/'' @ num_string requestId,
                    call_method = ''PUT'',
                    call_data = Some (JObj [(''status'', JStr ''approved''), (''new_due_date'', JStr (trim f))]),
                    call_useAuth = True\<rparr>]"
  using assms date_format_nonempty [OF assms(3)]
  by (simp add: reviewExtensionRequest_def Let_def)

text \<open>
  C5. While the \<open>extension_status\<close> of a task is \<open>pending\<close>, its extension button is
  labelled Pending; for a user who is not \<open>isUserAdmin\<close> it is disabled, has no handler
  and a click on it does nothing; for a user who is, its handler is
  \<open>reviewExtensionRequest\<close>; and no click on it makes a POST. The handler
  \<open>openExtensionRequest\<close> is on the button only when \<open>extension_status\<close> is absent (or
  empty), \<open>approved\<close> or \<open>rejected\<close>, and whatever POST a click on an extension button
  makes is \<open>POST /tasks/{id}/extension-requests\<close> of that task in one of those three
  states. An approving review by an admin who enters a final date in the form YYYY-MM-DD
  sends it as \<open>new_due_date\<close> in \<open>PUT /tasks/extension-requests/{id}\<close>.
\<close>

theorem extension_request_flow:
  "(t_extension_status t = Some ''pending'' \<longrightarrow>
      btn_label (extension_button st t) = ''Pending''
      \<and> (\<not> isUserAdmin st \<longrightarrow>
            btn_disabled (extension_button st t) \<and> btn_onclick (extension_button st t) = None
            \<and> click_extension st (extension_button st t) p1 p2 confirmed = [])
      \<and> (isUserAdmin st \<longrightarrow>
            btn_onclick (extension_button st t)
              = Some (ReviewExtensionRequest
                        (case or_null_num (t_extension_request_id t) of None \<Rightarrow> 0 | Some n \<Rightarrow> n) (t_id t)))
      \<and> (\<forall>c. Call c \<in> set (click_extension st (extension_button st t) p1 p2 confirmed)
               \<longrightarrow> call_method c \<noteq> ''POST''))
   \<and> (\<forall>tid due. btn_onclick (extension_button st t) = Some (OpenExtensionRequest tid due)
          \<longrightarrow> extension_open t \<and> tid = t_id t)
   \<and> (\<forall>c. Call c \<in> set (click_extension st (extension_button st t) p1 p2 confirmed)
            \<and> call_method c = ''POST''
          \<longrightarrow> extension_open t \<and> is_extension_post (t_id t) c)
   \<and> (isUserAdmin st \<and> requestId \<noteq> 0 \<and> is_date_format (trim f) \<longrightarrow>
        reviewExtensionRequest st requestId taskId btn True (Some f)
          = [Call \<lparr>call_endpoint = ''/tasks/extension-requests/'' @ num_string requestId,
                   call_method = ''PUT'',
                   call_data = Some (JObj [(''status'', JStr ''approved''), (''new_due_date'', JStr (trim f))]),
                   call_useAuth = True\<rparr>])"
proof -
  have pend: "t_extension_status t = Some ''pending'' \<Longrightarrow> \<not> extension_open t"
    by (simp add: extension_open_def or_null_def)
  have a: "t_extension_status t = Some ''pending'' \<longrightarrow>
      btn_label (extension_button st t) = ''Pending''
      \<and> (\<not> isUserAdmin st \<longrightarrow>
            btn_disabled (extension_button st t) \<and> btn_onclick (extension_button st t) = None
            \<and> click_extension st (extension_button st t) p1 p2 confirmed = [])
      \<and> (isUserAdmin st \<longrightarrow>
            btn_onclick (extension_button st t)
              = Some (ReviewExtensionRequest
                        (case or_null_num (t_extension_request_id t) of None \<Rightarrow> 0 | Some n \<Rightarrow> n) (t_id t)))
      \<and> (\<forall>c. Call c \<in> set (click_extension st (extension_button st t) p1 p2 confirmed)
               \<longrightarrow> call_method c \<noteq> ''POST'')"
    using extension_button_pending [of t st] click_post_only_when_open [of _ st t p1 p2 confirmed] pend
    by (auto simp: click_extension_def)
  have b: "\<forall>tid due. btn_onclick (extension_button st t) = Some (OpenExtensionRequest tid due)
          \<longrightarrow> extension_open t \<and> tid = t_id t"
    using extension_button_open [of st t] by blast
  have c: "\<forall>c. Call c \<in> set (click_extension st (extension_button st t) p1 p2 confirmed)
            \<and> call_method c = ''POST''
          \<longrightarrow> extension_open t \<and> is_extension_post (t_id t) c"
    using click_post_only_when_open [of _ st t p1 p2 confirmed] by blast
  from a b c review_with_new_due_date [of st requestId f taskId btn] show ?thesis by blast
qed


lemma member_page: "\<not> isUserAdmin (dashboard_page (session_of ''member'') None)"
  by (simp add: isUserAdmin_stored stored_role_def example_fields or_else_def toLowerCase_literals
        admin_roles_def)

lemma extension_examples:
  "t_extension_status pending_extension_task = Some ''pending''"
  "trim ''2026-03-16'' = ''2026-03-16''" "is_date_format ''2026-03-16''" "num_string 4 = ''4''"
  by (simp add: pending_extension_task_def) code_simp+

theorem extension_request_flow_witness:
  "t_extension_status pending_extension_task = Some ''pending''
   \<and> \<not> isUserAdmin (dashboard_page (session_of ''member'') None)
   \<and> btn_disabled (extension_button (dashboard_page (session_of ''member'') None) pending_extension_task)
   \<and> click_extension (dashboard_page (session_of ''member'') None)
        (extension_button (dashboard_page (session_of ''member'') None) pending_extension_task)
        (Some ''2026-03-16'') (Some ''vendor delay'') True = []
   \<and> isUserAdmin (dashboard_page (session_of ''admin'') None)
   \<and> (4::int) \<noteq> 0 \<and> is_date_format (trim ''2026-03-16'')
   \<and> reviewExtensionRequest (dashboard_page (session_of ''admin'') None) 4 5
        (extension_button (dashboard_page (session_of ''admin'') None) pending_extension_task)
        True (Some ''2026-03-16'')
       = [Call \<lparr>call_endpoint = ''/tasks/extension-requests/4'', call_method = ''PUT'',
                call_data = Some (JObj [(''status'', JStr ''approved''), (''new_due_date'', JStr ''2026-03-16'')]),
                call_useAuth = True\<rparr>]"
  using extension_request_flow [where st = "dashboard_page (session_of ''member'') None"
          and t = pending_extension_task and ?p1.0 = "Some ''2026-03-16''"
          and ?p2.0 = "Some ''vendor delay''" and confirmed = True]
        extension_request_flow [where st = "dashboard_page (session_of ''admin'') None"
          and requestId = 4 and taskId = 5 and f = "''2026-03-16''"
          and btn = "extension_button (dashboard_page (session_of ''admin'') None) pending_extension_task"]
  by (simp add: member_page admin_page extension_examples)

section \<open>Deleting a team that has members or tasks\<close>

lemma parseInt_nonempty: "parseInt s = Some n \<Longrightarrow> s \<noteq> []"
  by (auto simp: parseInt_def skip_space_def)

lemma delete_team_refused:
  assumes "find (\<lambda>t. srv_team_id t = tid) teams = Some tm"
      and "srv_members tm \<noteq> [] \<or> srv_tasks tm \<noteq> []"
  shows "delete_team teams tid
           = (\<lparr>resp_status = 400, resp_statusText = ''Bad Request'',
                resp_contentType = Some ''application/json'',
                resp_body = Some (JObj [(''detail'', JStr ''Team with members or tasks cannot be deleted'')])\<rparr>,
              teams)"
  using assms by (auto simp: delete_team_def)

lemma json_type: "js_includes ''application/json'' ''application/json''"
  by simp

lemma refused_outcome:
  "outcome (run_call st (always \<lparr>resp_status = 400, resp_statusText = txt,
                resp_contentType = Some ''application/json'',
                resp_body = Some (JObj [(''detail'', JStr ''Team with members or tasks cannot be deleted'')])\<rparr>) c)
     = Inl (Error (JStr ''Team with members or tasks cannot be deleted''))"
  by (simp add: run_call_def apiRequest_def always_def handle_response_def read_result_def ok_def
        json_type Let_def)

lemma run_confirmed:
  assumes "parseInt sel_value = Some tid"
  shows "confirmDeleteTeam_run st fetch sel_value True
           = team_delete (num_string tid)
             # settle (outcome (run_call st fetch
                   \<lparr>call_endpoint = ''/teams/'' @ num_string tid, call_method = ''DELETE'',
                     call_data = None, call_useAuth = True\<rparr>))
                 confirmDeleteTeam_then confirmDeleteTeam_catch"
  using assms parseInt_nonempty [OF assms]
  by (simp add: confirmDeleteTeam_run_def confirmDeleteTeam_def team_delete_def Let_def)

lemma run_not_ok:
  assumes "parseInt sel_value = Some tid" and "\<not> ok r"
  shows "\<exists>err. confirmDeleteTeam_run st (always r) sel_value True
                 = [team_delete (num_string tid), ShowErrorToast err ''Failed to delete team'']"
proof -
  obtain err st' where "handle_response st r = (Inl err, st')"
    using handle_response_not_ok [OF assms(2), of st] by blast
  then have "outcome (run_call st (always r)
                   \<lparr>call_endpoint = ''/teams/'' @ num_string tid, call_method = ''DELETE'',
                     call_data = None, call_useAuth = True\<rparr>) = Inl err"
    by (simp add: run_call_def apiRequest_def always_def Let_def)
  then show ?thesis
    by (simp add: run_confirmed [OF assms(1)] settle_def confirmDeleteTeam_catch_def)
qed

text \<open>
  C7, as the code has it, the server as the spec describes it. For a team that still has
  members or tasks, the server refuses the \<open>DELETE\<close> and keeps its teams as they are.
  \<open>confirmDeleteTeam\<close> makes the call only after the user has confirmed. When the call
  fails, whatever the failing response, the handler shows the error toast and does nothing
  else: the team list is not loaded again, it stays as displayed, and the team remains.
\<close>

theorem delete_team_with_members:
  assumes "find (\<lambda>t. srv_team_id t = tid) teams = Some tm"
      and "srv_members tm \<noteq> [] \<or> srv_tasks tm \<noteq> []"
      and "parseInt sel_value = Some tid"
  shows "snd (delete_team teams tid) = teams
       \<and> \<not> ok (fst (delete_team teams tid))
       \<and> confirmDeleteTeam sel_value False = []
       \<and> confirmDeleteTeam_run st (always (fst (delete_team teams tid))) sel_value True
           = [team_delete (num_string tid),
              ShowErrorToast (Error (JStr ''Team with members or tasks cannot be deleted''))
                ''Failed to delete team'']
       \<and> LoadUserTeams \<notin> set (confirmDeleteTeam_run st (always (fst (delete_team teams tid))) sel_value True)
       \<and> (\<forall>r. \<not> ok r \<longrightarrow>
             (\<exists>err. confirmDeleteTeam_run st (always r) sel_value True
                      = [team_delete (num_string tid), ShowErrorToast err ''Failed to delete team'']))"
proof -
  note d = delete_team_refused [OF assms(1,2)]
  have run: "confirmDeleteTeam_run st (always (fst (delete_team teams tid))) sel_value True
           = [team_delete (num_string tid),
              ShowErrorToast (Error (JStr ''Team with members or tasks cannot be deleted''))
                ''Failed to delete team'']"
    by (simp add: d run_confirmed [OF assms(3)] refused_outcome settle_def confirmDeleteTeam_catch_def)
  have nc: "confirmDeleteTeam sel_value False = []"
    using parseInt_nonempty [OF assms(3)] by (simp add: confirmDeleteTeam_def Let_def)
  have gen: "\<forall>r. \<not> ok r \<longrightarrow>
             (\<exists>err. confirmDeleteTeam_run st (always r) sel_value True
                      = [team_delete (num_string tid), ShowErrorToast err ''Failed to delete team''])"
    using run_not_ok [OF assms(3)] by blast
  show ?thesis
    using gen nc by (simp add: run team_delete_def) (simp add: d ok_def)
qed

lemma delete_examples:
  "find (\<lambda>t. srv_team_id t = 3) staffed_team = Some \<lparr>srv_team_id = 3, srv_members = [7], srv_tasks = []\<rparr>"
  "parseInt ''3'' = Some 3" "num_string 3 = ''3''"
  by (simp add: staffed_team_def) code_simp+

theorem delete_team_with_members_witness:
  "find (\<lambda>t. srv_team_id t = 3) staffed_team = Some \<lparr>srv_team_id = 3, srv_members = [7], srv_tasks = []\<rparr>
   \<and> srv_members \<lparr>srv_team_id = 3, srv_members = [7], srv_tasks = []\<rparr> = [7]
   \<and> parseInt ''3'' = Some 3
   \<and> snd (delete_team staffed_team 3) = staffed_team
   \<and> confirmDeleteTeam_run (dashboard_page (session_of ''admin'') None)
        (always (fst (delete_team staffed_team 3))) ''3'' True
       = [team_delete ''3'',
          ShowErrorToast (Error (JStr ''Team with members or tasks cannot be deleted''))
            ''Failed to delete team'']"
  using delete_team_with_members [where tid = 3 and teams = staffed_team
          and tm = "\<lparr>srv_team_id = 3, srv_members = [7], srv_tasks = []\<rparr>" and sel_value = "''3''"
          and st = "dashboard_page (session_of ''admin'') None"]
  by (simp add: delete_examples)

text \<open>
  The claim as stated has the team list reloaded after the failure. It is not: after the
  refused \<open>DELETE\<close> of a team with a member the client shows the toast only, and
  \<open>loadUserTeams\<close> is called by the handler of a successful deletion alone.
\<close>

theorem failed_delete_no_reload_counterexample:
  "confirmDeleteTeam_run (dashboard_page (session_of ''admin'') None)
        (always (fst (delete_team staffed_team 3))) ''3'' True
     = [team_delete ''3'',
        ShowErrorToast (Error (JStr ''Team with members or tasks cannot be deleted''))
          ''Failed to delete team'']
   \<and> LoadUserTeams \<notin> set (confirmDeleteTeam_run (dashboard_page (session_of ''admin'') None)
        (always (fst (delete_team staffed_team 3))) ''3'' True)
   \<and> LoadUserTeams \<in> set confirmDeleteTeam_then"
  by (simp add: run_confirmed [OF delete_examples(2)] delete_team_refused [OF delete_examples(1)]
        refused_outcome settle_def confirmDeleteTeam_catch_def confirmDeleteTeam_then_def
        delete_examples(3) team_delete_def)

section \<open>Working days left\<close>

lemma getUTCDay_range: "0 \<le> getUTCDay d \<and> getUTCDay d < 7"
  by (simp add: getUTCDay_def)

lemma is_weekday_iff: "is_weekday d = (getUTCDay d \<noteq> 0 \<and> getUTCDay d \<noteq> 6)"
  using getUTCDay_range [of d] by (auto simp: is_weekday_def)

lemma weekdays_between_empty: "b \<le> a \<Longrightarrow> weekdays_between a b = 0"
  by (simp add: weekdays_between_def)

lemma weekdays_between_step:
  assumes "a < b"
  shows "weekdays_between a b = (if is_weekday a then 1 else 0) + weekdays_between (a + 1) b"
proof -
  have split: "{a ..< b} = insert a {a + 1 ..< b}" using assms by auto
  have "{day \<in> {a + 1 ..< b}. is_weekday day} \<subseteq> {a + 1 ..< b}" by blast
  then have fin: "finite {day \<in> {a + 1 ..< b}. is_weekday day}"
    by (rule finite_subset) simp
  have notin: "a \<notin> {day \<in> {a + 1 ..< b}. is_weekday day}" by simp
  show ?thesis
  proof (cases "is_weekday a")
    case True
    then have "{day \<in> {a ..< b}. is_weekday day} = insert a {day \<in> {a + 1 ..< b}. is_weekday day}"
      unfolding split by auto
    with True fin notin show ?thesis by (simp add: weekdays_between_def)
  next
    case False
    then have "{day \<in> {a ..< b}. is_weekday day} = {day \<in> {a + 1 ..< b}. is_weekday day}"
      unfolding split by auto
    with False show ?thesis by (simp add: weekdays_between_def)
  qed
qed

lemma working_days_loop_counts:
  "working_days_loop cursor end_day days = days + int (weekdays_between cursor end_day)"
proof (induction cursor end_day days rule: working_days_loop.induct)
  case (1 cursor end_day days)
  show ?case
  proof (cases "cursor < end_day")
    case True
    from "1.IH" [OF True]
    have "working_days_loop cursor end_day days
            = (if getUTCDay cursor \<noteq> 0 \<and> getUTCDay cursor \<noteq> 6 then days + 1 else days)
              + int (weekdays_between (cursor + 1) end_day)"
      using True by (subst working_days_loop.simps) simp
    then show ?thesis
      by (simp add: weekdays_between_step [OF True] is_weekday_iff)
  next
    case False
    then show ?thesis
      by (subst working_days_loop.simps) (simp add: weekdays_between_empty)
  qed
qed


lemma digit_no_space: "is_digit c \<Longrightarrow> leading_code white_space (c # cs) = 0"
  unfolding leading_code_def white_space_def is_digit_def
  by (elim disjE | simp)+

lemma is_digit_facts:
  "is_digit c \<Longrightarrow> c \<noteq> CHR ''-'' \<and> c \<noteq> CHR ''+'' \<and> skip_space (c # cs) = c # cs"
  using digit_no_space [of c cs] by (auto simp: is_digit_def skip_space_def)

lemma parseInt_digits:
  assumes "list_all is_digit ds" and "ds \<noteq> []"
  shows "parseInt ds = Some (int (digits_val ds))"
proof -
  from assms obtain c cs where ds: "ds = c # cs" by (cases ds) auto
  with assms have c: "is_digit c" by simp
  have tw: "takeWhile is_digit ds = ds"
    using assms(1) by (simp add: takeWhile_eq_all_conv list_all_iff)
  from is_digit_facts [OF c, of cs] have "skip_space ds = ds" by (simp add: ds)
  with is_digit_facts [OF c, of cs] tw assms(2) show ?thesis
    by (simp add: parseInt_def Let_def ds)
qed

lemma length_10:
  assumes "length (s :: string) = 10"
  obtains a b c d e f g h i j where "s = [a, b, c, d, e, f, g, h, i, j]"
proof -
  from assms have "\<exists>a b c d e f g h i j. s = [a, b, c, d, e, f, g, h, i, j]"
    by (simp add: eval_nat_numeral length_Suc_conv) blast
  with that show ?thesis by blast
qed

lemma date_format_parts:
  assumes "is_date_format s"
  shows "split_on CHR ''-'' s = [take 4 s, take 2 (drop 5 s), drop 8 s]
       \<and> list_all is_digit (take 4 s) \<and> take 4 s \<noteq> [] \<and> length (take 4 s) = 4
       \<and> list_all is_digit (take 2 (drop 5 s)) \<and> take 2 (drop 5 s) \<noteq> [] \<and> length (take 2 (drop 5 s)) = 2
       \<and> list_all is_digit (drop 8 s) \<and> drop 8 s \<noteq> [] \<and> length (drop 8 s) = 2"
proof -
  from assms have "length s = 10" by (simp add: is_date_format_def)
  then obtain a b c d e f g h i j where s: "s = [a, b, c, d, e, f, g, h, i, j]"
    by (rule length_10)
  from assms have dg: "is_digit a" "is_digit b" "is_digit c" "is_digit d" "e = CHR ''-''"
      "is_digit f" "is_digit g" "h = CHR ''-''" "is_digit i" "is_digit j"
    by (simp_all add: is_date_format_def s)
  from dg is_digit_facts show ?thesis
    by (simp add: s)
qed

lemma digit_val_le: "digit_val c \<le> 9"
  by (simp add: digit_val_def split: option.split)

lemma digits_val_snoc: "digits_val (ds @ [c]) = 10 * digits_val ds + digit_val c"
  by (simp add: digits_val_def)

lemma digits_val_bound: "digits_val ds < 10 ^ length ds"
proof (induction ds rule: rev_induct)
  case Nil
  show ?case by (simp add: digits_val_def)
next
  case (snoc c ds)
  with digit_val_le [of c] show ?case by (simp add: digits_val_snoc)
qed


lemma days_before_month_bound:
  assumes "0 \<le> mn" and "mn < 12"
  shows "0 \<le> days_before_month mn leap \<and> days_before_month mn leap \<le> 335"
proof -
  let ?tab = "[0, 31, 59, 90, 120, 151, 181, 212, 243, 273, 304, 334 :: int]"
  define x where "x = ?tab ! nat mn"
  have "?tab ! nat mn \<in> set ?tab"
    by (rule nth_mem) (use assms in simp)
  then have x: "0 \<le> x \<and> x \<le> 334" unfolding x_def by auto
  have "days_before_month mn leap = x + (if leap \<and> 2 \<le> mn then 1 else 0)"
    by (simp only: days_before_month_def x_def)
  with x show ?thesis by (simp split: if_splits)
qed

lemma DayFromYear_bound:
  assumes "99 \<le> y" and "y \<le> 10008"
  shows "- 700000 \<le> DayFromYear y \<and> DayFromYear y \<le> 3000000"
proof -
  define a where "a = (y - 1969) div 4"
  define b where "b = (y - 1901) div 100"
  define c where "c = (y - 1601) div 400"
  have "(99 - 1969) div 4 \<le> (y - 1969) div 4" "(y - 1969) div 4 \<le> (10008 - 1969) div 4"
       "(99 - 1901) div 100 \<le> (y - 1901) div 100" "(y - 1901) div 100 \<le> (10008 - 1901) div 100"
       "(99 - 1601) div 400 \<le> (y - 1601) div 400" "(y - 1601) div 400 \<le> (10008 - 1601) div 400"
    using assms by (simp_all add: zdiv_mono1)
  then have bounds: "- 468 \<le> a" "a \<le> 2009" "- 19 \<le> b" "b \<le> 81" "- 4 \<le> c" "c \<le> 21"
    unfolding a_def b_def c_def by simp_all
  have "DayFromYear y = 365 * (y - 1970) + a - b + c"
    by (simp only: DayFromYear_def a_def b_def c_def)
  with bounds assms show ?thesis by auto
qed

lemma MakeDay_bound:
  assumes "100 \<le> y" "y \<le> 9999" "- 1 \<le> month" "month \<le> 98" "0 \<le> date" "date \<le> 99"
  shows "\<bar>MakeDay y month date\<bar> \<le> 100000000"
proof -
  define q where "q = month div 12"
  have "(- 1) div 12 \<le> month div 12" "month div 12 \<le> 98 div (12 :: int)"
    using assms by (simp_all add: zdiv_mono1)
  then have q: "- 1 \<le> q" "q \<le> 8" unfolding q_def by simp_all
  with assms have ym: "99 \<le> y + q" "y + q \<le> 10008" by linarith+
  have mn: "0 \<le> month mod 12" "month mod 12 < 12" by simp_all
  define D where "D = DayFromYear (y + q)"
  define B where "B = days_before_month (month mod 12) (InLeapYear (y + q))"
  have "MakeDay y month date = D + B + date - 1"
    by (simp only: MakeDay_def Let_def D_def B_def q_def)
  moreover from DayFromYear_bound [OF ym] have "- 700000 \<le> D \<and> D \<le> 3000000" by (simp only: D_def)
  moreover from days_before_month_bound [OF mn] have "0 \<le> B \<and> B \<le> 335" by (simp only: B_def)
  ultimately show ?thesis using assms by auto
qed

lemma Date_UTC_in_range:
  assumes "100 \<le> y" "y \<le> 9999" "- 1 \<le> month" "month \<le> 98" "0 \<le> date" "date \<le> 99"
  shows "Date_UTC y month date = Some (MakeDay y month date)"
  using MakeDay_bound [OF assms] assms(1) by (simp add: Date_UTC_def Let_def)


lemma parsed_date:
  assumes "is_date_format s"
  shows "s \<noteq> [] \<and> split_on CHR ''-'' s = [take 4 s, take 2 (drop 5 s), drop 8 s]
       \<and> parseInt (take 4 s) = Some (year_of s)
       \<and> parseInt (take 2 (drop 5 s)) = Some (month_of s)
       \<and> parseInt (drop 8 s) = Some (day_of s)
       \<and> 0 \<le> year_of s \<and> year_of s \<le> 9999
       \<and> 0 \<le> month_of s \<and> month_of s \<le> 99
       \<and> 0 \<le> day_of s \<and> day_of s \<le> 99"
proof -
  note p = date_format_parts [OF assms]
  from p have y: "parseInt (take 4 s) = Some (year_of s)"
    by (simp add: parseInt_digits year_of_def)
  from p have m: "parseInt (take 2 (drop 5 s)) = Some (month_of s)"
    by (simp add: parseInt_digits month_of_def)
  from p have d: "parseInt (drop 8 s) = Some (day_of s)"
    by (simp add: parseInt_digits day_of_def)
  from p digits_val_bound [of "take 4 s"] have yb: "year_of s \<le> 9999" by (simp add: year_of_def)
  from p digits_val_bound [of "take 2 (drop 5 s)"] have mb: "month_of s \<le> 99" by (simp add: month_of_def)
  from p digits_val_bound [of "drop 8 s"] have db: "day_of s \<le> 99" by (simp add: day_of_def)
  from assms have "s \<noteq> []" by (rule date_format_nonempty)
  with p y m d yb mb db show ?thesis by (simp add: year_of_def month_of_def day_of_def)
qed

lemma computeWorkingDaysLeft_dates:
  assumes "split_on CHR ''-'' s = [p0, p1, p2]" and "s \<noteq> []"
      and "parseInt p0 = Some y" "parseInt p1 = Some m" "parseInt p2 = Some d"
      and "Date_UTC ty tm td = Some today" and "Date_UTC y (m - 1) d = Some due"
  shows "computeWorkingDaysLeft (ty, tm, td) (Some s)
           = Some (if due = today then 0
                   else if today < due then int (weekdays_between today due)
                   else - int (weekdays_between due today))"
  using assms
  by (simp add: computeWorkingDaysLeft_def or_null_def Let_def working_days_loop_counts)

lemma computeWorkingDaysLeft_null:
  "computeWorkingDaysLeft today None = None
   \<and> computeWorkingDaysLeft today (Some []) = None
   \<and> (length (split_on CHR ''-'' x) \<noteq> 3 \<longrightarrow> computeWorkingDaysLeft today (Some x) = None)
   \<and> ((\<exists>p \<in> set (split_on CHR ''-'' x). parseInt p = None)
         \<longrightarrow> computeWorkingDaysLeft today (Some x) = None)"
proof -
  have a: "length (split_on CHR ''-'' x) \<noteq> 3 \<Longrightarrow> computeWorkingDaysLeft today (Some x) = None"
    by (auto simp: computeWorkingDaysLeft_def or_null_def split: option.splits list.splits if_splits)
  have b: "\<exists>p \<in> set (split_on CHR ''-'' x). parseInt p = None
             \<Longrightarrow> computeWorkingDaysLeft today (Some x) = None"
    by (auto simp: computeWorkingDaysLeft_def or_null_def split: option.splits list.splits if_splits)
  from a b show ?thesis
    by (auto simp: computeWorkingDaysLeft_def or_null_def)
qed

text \<open>
  C8, as the code has it. Take a due date written YYYY-MM-DD (four digits, two digits, two
  digits) with a year of 100 or more, and a clock whose date has a year from 100 to 9999.
  \<open>computeWorkingDaysLeft\<close> returns 0 when the due date is today; when it is after today,
  the number of weekdays (Monday to Friday) from today up to, and not including, the due
  date; when it is before today, minus the number of weekdays from the due date up to, and
  not including, today. It returns null for no input, for the empty string, for a string
  that does not split at \<open>-\<close> into exactly three parts, and for a string with a part that
  \<open>parseInt\<close> reads no integer from.
\<close>

theorem working_days_left:
  assumes "is_date_format s" and "100 \<le> year_of s"
      and "100 \<le> ty" "ty \<le> 9999" "0 \<le> tm" "tm \<le> 11" "1 \<le> td" "td \<le> 31"
  shows "computeWorkingDaysLeft (ty, tm, td) (Some s)
           = Some (if due_day s = civil_day ty (tm + 1) td then 0
                   else if civil_day ty (tm + 1) td < due_day s
                   then int (weekdays_between (civil_day ty (tm + 1) td) (due_day s))
                   else - int (weekdays_between (due_day s) (civil_day ty (tm + 1) td)))
       \<and> computeWorkingDaysLeft (ty, tm, td) None = None
       \<and> computeWorkingDaysLeft (ty, tm, td) (Some []) = None
       \<and> (length (split_on CHR ''-'' x) \<noteq> 3 \<longrightarrow> computeWorkingDaysLeft (ty, tm, td) (Some x) = None)
       \<and> ((\<exists>p \<in> set (split_on CHR ''-'' x). parseInt p = None)
             \<longrightarrow> computeWorkingDaysLeft (ty, tm, td) (Some x) = None)"
proof -
  note p = parsed_date [OF assms(1)]
  have due: "Date_UTC (year_of s) (month_of s - 1) (day_of s) = Some (due_day s)"
    using Date_UTC_in_range [of "year_of s" "month_of s - 1" "day_of s"] p assms(2)
    by (simp add: due_day_def civil_day_def)
  have today: "Date_UTC ty tm td = Some (civil_day ty (tm + 1) td)"
    using Date_UTC_in_range [of ty tm td] assms(3-8) by (simp add: civil_day_def)
  from p have sp: "split_on CHR ''-'' s = [take 4 s, take 2 (drop 5 s), drop 8 s]" and ne: "s \<noteq> []"
    and y: "parseInt (take 4 s) = Some (year_of s)"
    and m: "parseInt (take 2 (drop 5 s)) = Some (month_of s)"
    and d: "parseInt (drop 8 s) = Some (day_of s)"
    by simp_all
  from computeWorkingDaysLeft_dates [OF sp ne y m d today due]
       computeWorkingDaysLeft_null [of "(ty, tm, td)" x]
  show ?thesis by simp
qed


lemma weekdays_between_split:
  assumes "a \<le> b" and "b \<le> c"
  shows "weekdays_between a c = weekdays_between a b + weekdays_between b c"
proof -
  have u: "{day \<in> {a ..< c}. is_weekday day}
             = {day \<in> {a ..< b}. is_weekday day} \<union> {day \<in> {b ..< c}. is_weekday day}"
    using assms by auto
  have d: "{day \<in> {a ..< b}. is_weekday day} \<inter> {day \<in> {b ..< c}. is_weekday day} = {}"
    by auto
  have f: "finite {day \<in> {a ..< b}. is_weekday day}" "finite {day \<in> {b ..< c}. is_weekday day}"
    by (rule finite_subset [of _ "{a ..< b}"], blast, simp)
       (rule finite_subset [of _ "{b ..< c}"], blast, simp)
  show ?thesis
    unfolding weekdays_between_def u by (rule card_Un_disjoint [OF f d])
qed

lemma weekdays_between_pos:
  assumes "is_weekday a" and "a < b"
  shows "0 < weekdays_between a b"
  using weekdays_between_step [OF assms(2)] assms(1) by simp

lemma date_examples:
  "is_date_format ''2026-03-09''" "year_of ''2026-03-09'' = 2026" "due_day ''2026-03-09'' = 20521"
  "civil_day 2026 3 2 = 20514"
  "computeWorkingDaysLeft (2026, 2, 2) (Some ''2026-03-09'') = Some 5"
  "is_date_format ''0050-06-15''" "due_day ''0050-06-15'' = - 701100"
  "split_on CHR ''-'' ''0050-06-15'' = [''0050'', ''06'', ''15'']"
  "parseInt ''0050'' = Some 50" "parseInt ''06'' = Some 6" "parseInt ''15'' = Some 15"
  "Date_UTC 2026 2 2 = Some 20514" "Date_UTC 50 (6 - 1) 15 = Some (- 7140)"
  "is_weekday (- 701100)"
  "is_date_format ''2026-03-09T09:30:00'' = False"
  "computeWorkingDaysLeft (2026, 2, 2) (Some ''2026-03-09T09:30:00'') = Some 5"
  by code_simp+

lemma parseInt_skips_white_space:
  "parseInt ([CHR 0xC2, CHR 0xA0] @ ''2026'') = Some 2026"
  "parseInt ([CHR 0x20, CHR 0xEF, CHR 0xBB, CHR 0xBF, CHR 0x09] @ ''03'') = Some 3"
  "computeWorkingDaysLeft (2026, 2, 2) (Some ([CHR 0xC2, CHR 0xA0] @ ''2026-03-09'')) = Some 5"
  "trim ([CHR 0xC2, CHR 0xA0] @ ''2026-03-09'' @ [CHR 0xE2, CHR 0x80, CHR 0xA8, CHR 0x20]) = ''2026-03-09''"
  by code_simp+

theorem working_days_left_witness:
  "is_date_format ''2026-03-09'' \<and> (100 :: int) \<le> year_of ''2026-03-09''
   \<and> (100 :: int) \<le> 2026 \<and> (2026 :: int) \<le> 9999 \<and> (0 :: int) \<le> 2 \<and> (2 :: int) \<le> 11
   \<and> (1 :: int) \<le> 2 \<and> (2 :: int) \<le> 31
   \<and> civil_day 2026 (2 + 1) 2 < due_day ''2026-03-09''
   \<and> computeWorkingDaysLeft (2026, 2, 2) (Some ''2026-03-09'')
       = Some (int (weekdays_between (civil_day 2026 (2 + 1) 2) (due_day ''2026-03-09'')))
   \<and> computeWorkingDaysLeft (2026, 2, 2) (Some ''2026-03-09'') = Some 5"
  using working_days_left [where s = "''2026-03-09''" and ty = 2026 and tm = 2 and td = 2]
  by (simp add: date_examples)

text \<open>
  The claim as stated fails twice. A string that is not of the three-part numeric form
  still gets a number when each of its three parts starts with digits: a date followed by a
  time of day is read as the date. And a well-formed date with a year from 0000 to 0099 is
  read as the year 1900 later (\<open>Date.UTC\<close> does that), so for the 15th of June of the year
  50 the result is not minus the weekdays from that day to today.
\<close>

theorem lenient_parse_and_short_year_counterexample:
  "\<not> is_date_format ''2026-03-09T09:30:00''
   \<and> computeWorkingDaysLeft (2026, 2, 2) (Some ''2026-03-09T09:30:00'') = Some 5
   \<and> is_date_format ''0050-06-15''
   \<and> due_day ''0050-06-15'' < civil_day 2026 3 2
   \<and> computeWorkingDaysLeft (2026, 2, 2) (Some ''0050-06-15'')
       \<noteq> Some (- int (weekdays_between (due_day ''0050-06-15'') (civil_day 2026 3 2)))"
proof -
  have code: "computeWorkingDaysLeft (2026, 2, 2) (Some ''0050-06-15'')
                = Some (- int (weekdays_between (- 7140) 20514))"
    using computeWorkingDaysLeft_dates [OF date_examples(8) _ date_examples(9,10,11) date_examples(12,13)]
    by simp
  have "weekdays_between (- 701100) 20514
          = weekdays_between (- 701100) (- 7140) + weekdays_between (- 7140) 20514"
    by (rule weekdays_between_split) simp_all
  moreover have "0 < weekdays_between (- 701100) (- 7140)"
    by (rule weekdays_between_pos [OF date_examples(14)]) simp
  ultimately have "weekdays_between (- 701100) 20514 \<noteq> weekdays_between (- 7140) 20514"
    by simp
  with code show ?thesis by (simp add: date_examples)
qed

end
